theory Spec2Isabelle
  imports Main
begin

section \<open>Python values as the script sees them\<close>

text \<open>
  A Python \<open>str\<close> is a sequence of Unicode code points. The script tells Cyrillic
  letters from Latin ones, so a code point is a natural number and a string a list of them;
  \<open>ustr\<close> writes an ASCII literal.
\<close>

type_synonym pystr = "nat list"

definition ustr :: "string \<Rightarrow> pystr" where
  "ustr s = map of_char s"

text \<open>
  What \<open>json.loads\<close> returns. Of a float the script can observe only whether it is zero
  (its truth value): \<open>str\<close> of a float always has a point, an exponent, \<open>inf\<close> or \<open>nan\<close>
  in it, which \<open>int\<close> rejects, and a float has none of the string methods. A dict is its
  list of items, one per key.
\<close>

datatype pyfloat = FloatZero | FloatNonzero

datatype json =
    JNull
  | JBool bool
  | JInt int
  | JFloat pyfloat
  | JStr pystr
  | JArr "json list"
  | JObj "(pystr \<times> json) list"

text \<open>The only exception that escapes the script's own \<open>try\<close>.\<close>

datatype error = AttributeError

text \<open>Python's truth value of an object, as \<open>not\<close> and \<open>or\<close> test it.\<close>

fun truthy :: "json \<Rightarrow> bool" where
  "truthy JNull = False"
| "truthy (JBool b) = b"
| "truthy (JInt n) = (n \<noteq> 0)"
| "truthy (JFloat f) = (f \<noteq> FloatZero)"
| "truthy (JStr s) = (s \<noteq> [])"
| "truthy (JArr xs) = (xs \<noteq> [])"
| "truthy (JObj kvs) = (kvs \<noteq> [])"

text \<open>\<open>a or b\<close>: the first operand when it is true, the second otherwise.\<close>

definition py_or :: "json \<Rightarrow> json \<Rightarrow> json" where
  "py_or a b = (if truthy a then a else b)"

text \<open>\<open>entry.get(key)\<close>: the value, \<open>None\<close> for a missing key.\<close>

definition dict_get :: "(pystr \<times> json) list \<Rightarrow> pystr \<Rightarrow> json" where
  "dict_get entry key = (case map_of entry key of None \<Rightarrow> JNull | Some v \<Rightarrow> v)"

section \<open>Transliterator\<close>

definition CYRILLIC_MAP :: "(nat \<times> pystr) list" where
  "CYRILLIC_MAP = [
    (0x0410, ustr ''A''), (0x0430, ustr ''a''),
    (0x0411, ustr ''B''), (0x0431, ustr ''b''),
    (0x0412, ustr ''V''), (0x0432, ustr ''v''),
    (0x0413, ustr ''G''), (0x0433, ustr ''g''),
    (0x0414, ustr ''D''), (0x0434, ustr ''d''),
    (0x0415, ustr ''E''), (0x0435, ustr ''e''),
    (0x0401, ustr ''Yo''), (0x0451, ustr ''yo''),
    (0x0416, ustr ''Zh''), (0x0436, ustr ''zh''),
    (0x0417, ustr ''Z''), (0x0437, ustr ''z''),
    (0x0418, ustr ''I''), (0x0438, ustr ''i''),
    (0x0419, ustr ''Y''), (0x0439, ustr ''y''),
    (0x041a, ustr ''K''), (0x043a, ustr ''k''),
    (0x041b, ustr ''L''), (0x043b, ustr ''l''),
    (0x041c, ustr ''M''), (0x043c, ustr ''m''),
    (0x041d, ustr ''N''), (0x043d, ustr ''n''),
    (0x041e, ustr ''O''), (0x043e, ustr ''o''),
    (0x041f, ustr ''P''), (0x043f, ustr ''p''),
    (0x0420, ustr ''R''), (0x0440, ustr ''r''),
    (0x0421, ustr ''S''), (0x0441, ustr ''s''),
    (0x0422, ustr ''T''), (0x0442, ustr ''t''),
    (0x0423, ustr ''U''), (0x0443, ustr ''u''),
    (0x0424, ustr ''F''), (0x0444, ustr ''f''),
    (0x0425, ustr ''Kh''), (0x0445, ustr ''kh''),
    (0x0426, ustr ''Ts''), (0x0446, ustr ''ts''),
    (0x0427, ustr ''Ch''), (0x0447, ustr ''ch''),
    (0x0428, ustr ''Sh''), (0x0448, ustr ''sh''),
    (0x0429, ustr ''Shch''), (0x0449, ustr ''shch''),
    (0x042a, []), (0x044a, []),
    (0x042b, ustr ''Y''), (0x044b, ustr ''y''),
    (0x042c, []), (0x044c, []),
    (0x042d, ustr ''E''), (0x044d, ustr ''e''),
    (0x042e, ustr ''Yu''), (0x044e, ustr ''yu''),
    (0x042f, ustr ''Ya''), (0x044f, ustr ''ya''),
    (0x04d8, ustr ''A''), (0x04d9, ustr ''a''),
    (0x04e8, ustr ''O''), (0x04e9, ustr ''o'')
  ]"

text \<open>\<open>str.maketrans\<close> of a dict: the table from code point to replacement.\<close>

definition TRANS_TABLE :: "nat \<rightharpoonup> pystr" where
  "TRANS_TABLE = map_of CYRILLIC_MAP"

text \<open>
  \<open>str.translate\<close>: each code point with an entry is replaced by the entry, every other
  one is kept.
\<close>

definition py_translate :: "(nat \<rightharpoonup> pystr) \<Rightarrow> pystr \<Rightarrow> pystr" where
  "py_translate table s = concat (map (\<lambda>c. case table c of None \<Rightarrow> [c] | Some r \<Rightarrow> r) s)"

text \<open>
  \<open>transliterate\<close> receives whatever \<open>raw or ""\<close> is: a false object gives \<open>""\<close>, a
  string is translated, and any other object has no \<open>translate\<close> attribute.
\<close>

definition transliterate :: "json \<Rightarrow> error + pystr" where
  "transliterate text =
     (if \<not> truthy text then Inr []
      else case text of
             JStr s \<Rightarrow> Inr (py_translate TRANS_TABLE s)
           | _ \<Rightarrow> Inl AttributeError)"

section \<open>String builtins\<close>

text \<open>
  The code points \<open>str.isspace\<close> accepts, which \<open>str.strip()\<close> without an argument
  removes.
\<close>

definition is_space :: "nat \<Rightarrow> bool" where
  "is_space c \<longleftrightarrow>
     (0x09 \<le> c \<and> c \<le> 0x0D) \<or> (0x1C \<le> c \<and> c \<le> 0x20) \<or> c = 0x85 \<or> c = 0xA0 \<or>
     c = 0x1680 \<or> (0x2000 \<le> c \<and> c \<le> 0x200A) \<or> c = 0x2028 \<or> c = 0x2029 \<or>
     c = 0x202F \<or> c = 0x205F \<or> c = 0x3000"

definition py_strip_where :: "(nat \<Rightarrow> bool) \<Rightarrow> pystr \<Rightarrow> pystr" where
  "py_strip_where p s = rev (dropWhile p (rev (dropWhile p s)))"

text \<open>\<open>s.strip()\<close> and \<open>s.strip(chars)\<close>.\<close>

definition py_strip :: "pystr \<Rightarrow> pystr" where
  "py_strip s = py_strip_where is_space s"

definition py_strip_chars :: "pystr \<Rightarrow> pystr \<Rightarrow> pystr" where
  "py_strip_chars chars s = py_strip_where (\<lambda>c. c \<in> set chars) s"

fun starts_with :: "pystr \<Rightarrow> pystr \<Rightarrow> bool" where
  "starts_with s [] = True"
| "starts_with [] (p # ps) = False"
| "starts_with (c # s) (p # ps) = (c = p \<and> starts_with s ps)"

text \<open>
  \<open>s.replace(old, new)\<close> for a non-empty \<open>old\<close>, as every token of the script is: the
  occurrences are taken from the left and do not overlap.
\<close>

function py_replace :: "pystr \<Rightarrow> pystr \<Rightarrow> pystr \<Rightarrow> pystr" where
  "py_replace old new [] = []"
| "py_replace old new (c # s) =
     (if old \<noteq> [] \<and> starts_with (c # s) old
      then new @ py_replace old new (drop (length old) (c # s))
      else c # py_replace old new s)"
  by pat_completeness auto
termination
  by (relation "measure (\<lambda>(old, new, s). length s)") auto

text \<open>\<open>s.split(sep)\<close> for a separator of one code point: never an empty list.\<close>

fun py_split :: "nat \<Rightarrow> pystr \<Rightarrow> pystr list" where
  "py_split sep [] = [[]]"
| "py_split sep (c # s) =
     (if c = sep then [] # py_split sep s
      else case py_split sep s of
             [] \<Rightarrow> [[c]]
           | p # ps \<Rightarrow> (c # p) # ps)"

text \<open>The decimal text of an integer, as \<open>str\<close> and an f-string write it.\<close>

fun str_nat :: "nat \<Rightarrow> pystr" where
  "str_nat n = (if n < 10 then [48 + n] else str_nat (n div 10) @ [48 + n mod 10])"

definition str_int :: "int \<Rightarrow> pystr" where
  "str_int i = (if i < 0 then 45 # str_nat (nat (- i)) else str_nat (nat i))"

section \<open>The interpreter's Unicode tables\<close>

text \<open>
  Two builtins read the Unicode Character Database, which is no part of the script:
  \<open>unicodedata.normalize("NFKD", _)\<close> and the decimal value that \<open>int\<close> gives a
  digit outside ASCII. Both are parameters of the model; what they do on ASCII text is
  fixed and written out below.
\<close>

record unicode_data =
  nfkd :: "pystr \<Rightarrow> pystr"
  decimal :: "nat \<Rightarrow> nat option"

text \<open>ASCII text is in normal form already and comes back unchanged.\<close>

definition normalize_nfkd :: "unicode_data \<Rightarrow> pystr \<Rightarrow> pystr" where
  "normalize_nfkd ud s = (if list_all (\<lambda>c. c < 128) s then s else nfkd ud s)"

text \<open>\<open>.encode("ascii", "ignore").decode("ascii")\<close> drops what is not ASCII.\<close>

definition encode_ascii_ignore :: "pystr \<Rightarrow> pystr" where
  "encode_ascii_ignore s = filter (\<lambda>c. c < 128) s"

text \<open>\<open>str.lower\<close>, on the ASCII text it is applied to.\<close>

definition ascii_lower :: "nat \<Rightarrow> nat" where
  "ascii_lower c = (if 65 \<le> c \<and> c \<le> 90 then c + 32 else c)"

section \<open>Integer coercion\<close>

definition is_digit :: "nat \<Rightarrow> bool" where
  "is_digit c \<longleftrightarrow> 48 \<le> c \<and> c \<le> 57"

text \<open>The blanks \<open>int\<close> skips around the number once the text is ASCII.\<close>

definition c_isspace :: "nat \<Rightarrow> bool" where
  "c_isspace c \<longleftrightarrow> (0x09 \<le> c \<and> c \<le> 0x0D) \<or> c = 0x20"

text \<open>
  \<open>int\<close> first turns the text into ASCII: a Unicode blank becomes a space, a Unicode
  decimal digit its ASCII digit, anything else outside ASCII a question mark, on which
  the conversion then fails.
\<close>

definition ascii_decimal_space :: "(nat \<Rightarrow> nat option) \<Rightarrow> nat \<Rightarrow> nat" where
  "ascii_decimal_space dec c =
     (if c < 128 then c
      else if is_space c then 32
      else case dec c of None \<Rightarrow> 63 | Some d \<Rightarrow> 48 + d)"

text \<open>
  After the first digit: more digits, each optionally preceded by one underscore.
  Returns the value read and the text left over.
\<close>

fun int_digits :: "nat \<Rightarrow> pystr \<Rightarrow> nat \<times> pystr" where
  "int_digits acc [] = (acc, [])"
| "int_digits acc [c] = (if is_digit c then (10 * acc + (c - 48), []) else (acc, [c]))"
| "int_digits acc (c # d # s) =
     (if is_digit c then int_digits (10 * acc + (c - 48)) (d # s)
      else if c = 95 \<and> is_digit d then int_digits (10 * acc + (d - 48)) s
      else (acc, c # d # s))"

text \<open>
  \<open>int(s)\<close> for a string, base ten: blanks, an optional sign, digits with single
  underscores between them, blanks. \<open>None\<close> is the ValueError. Python's integers are
  unbounded, as \<open>int\<close> is here.
\<close>

definition py_int :: "(nat \<Rightarrow> nat option) \<Rightarrow> pystr \<Rightarrow> int option" where
  "py_int dec s =
     (let t = dropWhile c_isspace (map (ascii_decimal_space dec) s);
          neg = (t \<noteq> [] \<and> hd t = 45);
          u = (if t \<noteq> [] \<and> (hd t = 43 \<or> hd t = 45) then tl t else t)
      in case u of
           [] \<Rightarrow> None
         | c # r \<Rightarrow>
             if \<not> is_digit c then None
             else (case int_digits (c - 48) r of
                     (n, rest) \<Rightarrow>
                       if dropWhile c_isspace rest = []
                       then Some (if neg then - int n else int n)
                       else None))"

text \<open>
  \<open>int(str(value))\<close>. The text of \<open>None\<close>, \<open>True\<close> and \<open>False\<close> is their name, of an
  integer its decimal digits, of a string itself. The text of a float, a list or a dict
  is never an integer literal: the ValueError directly.
\<close>

definition int_of_str :: "(nat \<Rightarrow> nat option) \<Rightarrow> json \<Rightarrow> int option" where
  "int_of_str dec v =
     (case v of
        JNull \<Rightarrow> py_int dec (ustr ''None'')
      | JBool b \<Rightarrow> py_int dec (if b then ustr ''True'' else ustr ''False'')
      | JInt n \<Rightarrow> py_int dec (str_int n)
      | JStr s \<Rightarrow> py_int dec s
      | JFloat f \<Rightarrow> None
      | JArr xs \<Rightarrow> None
      | JObj kvs \<Rightarrow> None)"

definition parse_int :: "(nat \<Rightarrow> nat option) \<Rightarrow> json \<Rightarrow> int" where
  "parse_int dec v = (case int_of_str dec v of None \<Rightarrow> 0 | Some n \<Rightarrow> n)"

section \<open>Slug generator\<close>

definition in_az09 :: "nat \<Rightarrow> bool" where
  "in_az09 c \<longleftrightarrow> (97 \<le> c \<and> c \<le> 122) \<or> (48 \<le> c \<and> c \<le> 57)"

text \<open>
  \<open>re.sub(r"[^a-z0-9]+", "-", s)\<close>: the leftmost match starts at the first code point
  outside the class and, the plus being greedy, runs as far as such code points go.
\<close>

function re_sub_dash :: "pystr \<Rightarrow> pystr" where
  "re_sub_dash [] = []"
| "re_sub_dash (c # s) =
     (if in_az09 c then c # re_sub_dash s
      else 45 # re_sub_dash (dropWhile (\<lambda>x. \<not> in_az09 x) s))"
  by pat_completeness auto
termination
  by (relation "measure length") (auto simp: length_dropWhile_le less_Suc_eq_le)

definition slugify :: "unicode_data \<Rightarrow> pystr \<Rightarrow> int \<Rightarrow> pystr" where
  "slugify ud title year =
     (let ascii_title = encode_ascii_ignore (normalize_nfkd ud title);
          ascii_title = py_strip_chars [45] (re_sub_dash (map ascii_lower ascii_title));
          ascii_title = (if ascii_title = [] then ustr ''film'' else ascii_title)
      in if year \<noteq> 0 then ascii_title @ 45 # str_int year else ascii_title)"

section \<open>Director parser\<close>

definition DELIMITERS :: "pystr list" where
  "DELIMITERS = [ustr '' & '', ustr '' and '', ustr '';'', ustr ''/'', ustr ''|'']"

text \<open>The argument of \<open>part.strip\<close>: space, tab, carriage return, line feed, full stop.\<close>

definition STRIP_CHARS :: "pystr" where
  "STRIP_CHARS = [0x20, 0x09, 0x0D, 0x0A, 0x2E]"

definition parse_directors :: "json \<Rightarrow> error + pystr list" where
  "parse_directors raw =
     (case transliterate (py_or raw (JStr [])) of
        Inl e \<Rightarrow> Inl e
      | Inr cleaned0 \<Rightarrow>
          (let cleaned = foldl (\<lambda>cleaned token. py_replace token [44] cleaned) cleaned0 DELIMITERS;
               parts = map (py_strip_chars STRIP_CHARS) (py_split 44 cleaned)
           in Inr (filter (\<lambda>part. part \<noteq> []) parts)))"

section \<open>Record mapper and the loop over the source\<close>

record movie =
  slug :: pystr
  title :: pystr
  releaseYear :: int
  registryYear :: int
  directors :: "pystr list"
  cast :: "pystr list"
  runtimeMinutes :: int
  genres :: "pystr list"
  logline :: pystr
  summary :: pystr
  whyImportant :: pystr
  watchUrl :: pystr
  image_url :: pystr

text \<open>The two module-level variables the loop updates.\<close>

record run_state =
  movies :: "movie list"
  slug_counts :: "pystr \<rightharpoonup> int"

text \<open>
  \<open>(entry.get("originalName") or entry.get("name") or "").strip()\<close>: only a string
  has \<open>strip\<close>.
\<close>

definition resolve_title :: "(pystr \<times> json) list \<Rightarrow> error + pystr" where
  "resolve_title entry =
     (case py_or (py_or (dict_get entry (ustr ''originalName'')) (dict_get entry (ustr ''name'')))
                 (JStr []) of
        JStr s \<Rightarrow> Inr (py_strip s)
      | _ \<Rightarrow> Inl AttributeError)"

text \<open>
  One pass of the loop body. An element of the source that is no dict has no \<open>get\<close>.
  \<open>continue\<close> leaves the state as it is.
\<close>

definition process_entry :: "unicode_data \<Rightarrow> run_state \<Rightarrow> json \<Rightarrow> error + run_state" where
  "process_entry ud st entry =
     (case entry of
        JObj e \<Rightarrow>
          (case resolve_title e of
             Inl err \<Rightarrow> Inl err
           | Inr ttl \<Rightarrow>
               (let release_year = parse_int (decimal ud) (dict_get e (ustr ''yearProduced''))
                in if ttl = [] then Inr st
                   else
                     (let base_slug = slugify ud ttl release_year;
                          occurrence = (case slug_counts st base_slug of None \<Rightarrow> 0 | Some n \<Rightarrow> n);
                          counts = (slug_counts st)(base_slug \<mapsto> occurrence + 1);
                          sl = (if occurrence = 0 then base_slug
                                else base_slug @ 45 # str_int (occurrence + 1))
                      in case parse_directors (dict_get e (ustr ''director'')) of
                           Inl err \<Rightarrow> Inl err
                         | Inr ds \<Rightarrow>
                             Inr \<lparr>movies = movies st @
                                    [\<lparr>slug = sl, title = ttl, releaseYear = release_year,
                                      registryYear =
                                        parse_int (decimal ud) (dict_get e (ustr ''yearAdded'')),
                                      directors = ds, cast = [], runtimeMinutes = 0,
                                      genres = [], logline = [], summary = [],
                                      whyImportant = [], watchUrl = [], image_url = []\<rparr>],
                                  slug_counts = counts\<rparr>)))
      | _ \<Rightarrow> Inl AttributeError)"

fun run_loop :: "unicode_data \<Rightarrow> run_state \<Rightarrow> json list \<Rightarrow> error + run_state" where
  "run_loop ud st [] = Inr st"
| "run_loop ud st (entry # rest) =
     (case process_entry ud st entry of
        Inl err \<Rightarrow> Inl err
      | Inr st' \<Rightarrow> run_loop ud st' rest)"

text \<open>The whole script: the list that is written to the target, or the exception.\<close>

definition initial_state :: run_state where
  "initial_state = \<lparr>movies = [], slug_counts = Map.empty\<rparr>"

definition convert :: "unicode_data \<Rightarrow> json list \<Rightarrow> error + movie list" where
  "convert ud source =
     (case run_loop ud initial_state source of
        Inl err \<Rightarrow> Inl err
      | Inr st \<Rightarrow> Inr (movies st))"

text \<open>
  Tables with no decomposition and no digit outside ASCII, to run the model on ASCII
  examples, where neither table is read.
\<close>

definition plain_unicode :: unicode_data where
  "plain_unicode = \<lparr>nfkd = (\<lambda>s. s), decimal = (\<lambda>c. None)\<rparr>"

section \<open>The specification's algorithms, in its own words\<close>

subsection \<open>Slug generator, steps 1 to 4\<close>

text \<open>
  Step 2, "replace every maximal run of characters outside \<open>[a-z0-9]\<close> with a single
  hyphen": reading from the left, a character outside the class writes a hyphen when it
  opens a run and nothing when it continues one. The flag says that the previous
  character was in a run.
\<close>

fun spec_hyphenate :: "bool \<Rightarrow> pystr \<Rightarrow> pystr" where
  "spec_hyphenate in_run [] = []"
| "spec_hyphenate in_run (c # s) =
     (if in_az09 c then c # spec_hyphenate False s
      else if in_run then spec_hyphenate True s
      else 45 # spec_hyphenate True s)"

text \<open>"Trim leading/trailing hyphens".\<close>

fun spec_trim_trailing :: "pystr \<Rightarrow> pystr" where
  "spec_trim_trailing [] = []"
| "spec_trim_trailing (c # s) =
     (if c = 45 \<and> spec_trim_trailing s = [] then [] else c # spec_trim_trailing s)"

fun spec_trim_leading :: "pystr \<Rightarrow> pystr" where
  "spec_trim_leading [] = []"
| "spec_trim_leading (c # s) = (if c = 45 then spec_trim_leading s else c # s)"

definition spec_slugify :: "unicode_data \<Rightarrow> pystr \<Rightarrow> int \<Rightarrow> pystr" where
  "spec_slugify ud t year =
     (let step1 = filter (\<lambda>c. c < 128) (normalize_nfkd ud t);
          step2 = spec_trim_trailing (spec_trim_leading
                    (spec_hyphenate False (map ascii_lower step1)));
          step3 = (if step2 = [] then ustr ''film'' else step2)
      in if year = 0 then step3 else step3 @ ustr ''-'' @ str_int year)"

subsection \<open>The slug pattern\<close>

text \<open>
  \<open>[a-z0-9]+(-[a-z0-9]+)*(-N)?\<close>, N a decimal number: one or more words of
  \<open>[a-z0-9]\<close> joined by single hyphens (the optional suffix is one more such word). The
  flag says that the text read so far ends inside a word.
\<close>

fun slug_match :: "bool \<Rightarrow> pystr \<Rightarrow> bool" where
  "slug_match in_word [] = in_word"
| "slug_match in_word (c # s) =
     (if in_az09 c then slug_match True s
      else c = 45 \<and> in_word \<and> slug_match False s)"

definition slug_pattern :: "pystr \<Rightarrow> bool" where
  "slug_pattern s = slug_match False s"

subsection \<open>Disambiguation\<close>

text \<open>The base slug of an output record: the slug of its title and release year.\<close>

definition base_slug_of :: "unicode_data \<Rightarrow> movie \<Rightarrow> pystr" where
  "base_slug_of ud m = slugify ud (title m) (releaseYear m)"

text \<open>How many of the records \<open>ms\<close> have base slug \<open>S\<close>.\<close>

definition occurrences :: "unicode_data \<Rightarrow> pystr \<Rightarrow> movie list \<Rightarrow> nat" where
  "occurrences ud S ms = length (filter (\<lambda>m. base_slug_of ud m = S) ms)"

text \<open>The slug of the \<open>N\<close>th record with base slug \<open>S\<close>.\<close>

definition nth_slug :: "pystr \<Rightarrow> nat \<Rightarrow> pystr" where
  "nth_slug S N = (if N \<le> 1 then S else S @ ustr ''-'' @ str_int (int N))"

subsection \<open>Director parser\<close>

text \<open>
  The reference algorithm, with the cleaning of a piece left open: transliterate, turn
  each delimiter into a comma, split on commas, clean each piece, drop the empty ones.
\<close>

definition reference_directors :: "(pystr \<Rightarrow> pystr) \<Rightarrow> pystr \<Rightarrow> pystr list" where
  "reference_directors clean raw =
     (let t0 = py_translate TRANS_TABLE raw;
          t1 = py_replace (ustr '' & '') (ustr '','') t0;
          t2 = py_replace (ustr '' and '') (ustr '','') t1;
          t3 = py_replace (ustr '';'') (ustr '','') t2;
          t4 = py_replace (ustr ''/'') (ustr '','') t3;
          t5 = py_replace (ustr ''|'') (ustr '','') t4
      in filter (\<lambda>p. p \<noteq> []) (map clean (py_split 44 t5)))"

text \<open>
  "Strip leading/trailing whitespace and trailing periods", read as near to the code as
  the words allow: the blanks are the four the code names, and at the end blanks and
  full stops go together. At the start only blanks go.
\<close>

definition BLANKS :: pystr where
  "BLANKS = [0x20, 0x09, 0x0D, 0x0A]"

definition spec_clean_piece :: "pystr \<Rightarrow> pystr" where
  "spec_clean_piece p =
     rev (dropWhile (\<lambda>c. c \<in> set BLANKS \<or> c = 0x2E)
       (rev (dropWhile (\<lambda>c. c \<in> set BLANKS) p)))"

subsection \<open>Reading decimal digits\<close>

text \<open>The number a run of decimal digits stands for, read from the left.\<close>

definition digits_value :: "nat \<Rightarrow> pystr \<Rightarrow> nat" where
  "digits_value acc ds = foldl (\<lambda>a d. 10 * a + (d - 48)) acc ds"

subsection \<open>Invariants of the loop\<close>

text \<open>
  Words of \<open>[a-z0-9]\<close> and hyphens with no two hyphens in a row, as \<open>re.sub\<close> leaves
  them; the flag says whether a hyphen may come next.
\<close>

fun hyphenated :: "bool \<Rightarrow> pystr \<Rightarrow> bool" where
  "hyphenated may_hyphen [] = True"
| "hyphenated may_hyphen (c # s) =
     (if in_az09 c then hyphenated True s
      else c = 45 \<and> may_hyphen \<and> hyphenated False s)"

text \<open>Each counter is the number of records written so far with that base slug.\<close>

definition counts_ok :: "unicode_data \<Rightarrow> run_state \<Rightarrow> bool" where
  "counts_ok ud st \<longleftrightarrow>
     (\<forall>S. slug_counts st S =
        (if occurrences ud S (movies st) = 0 then None
         else Some (int (occurrences ud S (movies st)))))"

text \<open>
  Each slug is the one of its rank among the records before it that have the same base
  slug.
\<close>

definition slugs_numbered :: "unicode_data \<Rightarrow> movie list \<Rightarrow> bool" where
  "slugs_numbered ud ms \<longleftrightarrow>
     (\<forall>i < length ms.
        slug (ms ! i) =
          nth_slug (base_slug_of ud (ms ! i))
            (Suc (occurrences ud (base_slug_of ud (ms ! i)) (take i ms))))"

subsection \<open>The records of the source, in input order\<close>

text \<open>
  The base slug the loop computes for an element of the source; none for an element
  that is skipped or on which the loop stops.
\<close>

definition entry_base_slug :: "unicode_data \<Rightarrow> json \<Rightarrow> pystr option" where
  "entry_base_slug ud entry =
     (case entry of
        JObj e \<Rightarrow>
          (case resolve_title e of
             Inl err \<Rightarrow> None
           | Inr ttl \<Rightarrow>
               if ttl = [] then None
               else Some (slugify ud ttl
                            (parse_int (decimal ud) (dict_get e (ustr ''yearProduced'')))))
      | _ \<Rightarrow> None)"

text \<open>The base slugs of the records a list of elements produces, in input order.\<close>

fun base_slugs :: "unicode_data \<Rightarrow> json list \<Rightarrow> pystr list" where
  "base_slugs ud [] = []"
| "base_slugs ud (entry # rest) =
     (case entry_base_slug ud entry of
        None \<Rightarrow> base_slugs ud rest
      | Some S \<Rightarrow> S # base_slugs ud rest)"

text \<open>The Echo record of 2019 with a director, to tell two such records apart.\<close>

definition echo_fields :: "string \<Rightarrow> (pystr \<times> json) list" where
  "echo_fields d =
     [(ustr ''name'', JStr (ustr ''Echo'')), (ustr ''yearProduced'', JInt 2019),
      (ustr ''director'', JStr (ustr d))]"

definition echo_by :: "string \<Rightarrow> json" where
  "echo_by d = JObj (echo_fields d)"

subsection \<open>An example input\<close>

definition echo_2019 :: json where
  "echo_2019 = JObj [(ustr ''name'', JStr (ustr ''Echo'')), (ustr ''yearProduced'', JInt 2019)]"

text \<open>An output record with no years added and no directors.\<close>

definition bare_movie :: "pystr \<Rightarrow> pystr \<Rightarrow> int \<Rightarrow> movie" where
  "bare_movie s t y =
     \<lparr>slug = s, title = t, releaseYear = y, registryYear = 0, directors = [], cast = [],
      runtimeMinutes = 0, genres = [], logline = [], summary = [], whyImportant = [],
      watchUrl = [], image_url = []\<rparr>"

section \<open>Evaluation rules\<close>

declare str_nat.simps [simp del]

lemma ustr_Nil [simp]: "ustr [] = []"
  by (simp add: ustr_def)

lemma ustr_Cons [simp]: "ustr (c # s) = of_char c # ustr s"
  by (simp add: ustr_def)

section \<open>Transliterator: what it computes\<close>

lemma keys_distinct: "distinct (map fst CYRILLIC_MAP)"
  by (simp add: CYRILLIC_MAP_def)

lemma TRANS_TABLE_entry: "(c, r) \<in> set CYRILLIC_MAP \<Longrightarrow> TRANS_TABLE c = Some r"
  unfolding TRANS_TABLE_def using keys_distinct by (rule map_of_is_SomeI)

lemma TRANS_TABLE_absent: "c \<notin> fst ` set CYRILLIC_MAP \<Longrightarrow> TRANS_TABLE c = None"
  unfolding TRANS_TABLE_def by (simp add: map_of_eq_None_iff)

lemma transliterate_str: "transliterate (JStr s) = Inr (py_translate TRANS_TABLE s)"
  by (cases s) (simp_all add: transliterate_def py_translate_def)

lemma py_translate_Cons:
  "py_translate t (c # s) = (case t c of None \<Rightarrow> [c] | Some r \<Rightarrow> r) @ py_translate t s"
  by (simp add: py_translate_def)

lemma signs: "TRANS_TABLE 0x042a = Some [] \<and> TRANS_TABLE 0x044a = Some [] \<and> TRANS_TABLE 0x042c = Some [] \<and> TRANS_TABLE 0x044c = Some []"
  by (simp add: TRANS_TABLE_def CYRILLIC_MAP_def)

text \<open>
  C8. \<open>transliterate\<close> yields the empty string for an absent (\<open>None\<close>) or empty
  input and never fails on a string. It works code point by code point: one with an
  entry in the table is replaced by the entry's Latin text, one without is kept, and the
  result of a concatenation is the concatenation of the results. The hard and soft signs
  vanish, capital Shcha gives the four letters \<open>Shch\<close>, and the Cyrillic spelling of
  "Pyotr Ivanov" gives the Latin one.
\<close>

theorem transliterate_table:
  "transliterate JNull = Inr [] \<and> transliterate (JStr []) = Inr [] \<and>
   (\<exists>r. transliterate (JStr s) = Inr r) \<and>
   ((c, r) \<in> set CYRILLIC_MAP \<longrightarrow>
      transliterate (JStr (c # s)) = Inr (r @ projr (transliterate (JStr s)))) \<and>
   (c' \<notin> fst ` set CYRILLIC_MAP \<longrightarrow>
      transliterate (JStr (c' # s)) = Inr (c' # projr (transliterate (JStr s)))) \<and>
   transliterate (JStr (s @ s')) =
      Inr (projr (transliterate (JStr s)) @ projr (transliterate (JStr s'))) \<and>
   transliterate (JStr [0x042a]) = Inr [] \<and> transliterate (JStr [0x044a]) = Inr [] \<and>
   transliterate (JStr [0x042c]) = Inr [] \<and> transliterate (JStr [0x044c]) = Inr [] \<and>
   transliterate (JStr [0x0429]) = Inr (ustr ''Shch'') \<and>
   transliterate (JStr [0x041f, 0x0451, 0x0442, 0x0440, 0x20,
                        0x0418, 0x0432, 0x0430, 0x043d, 0x043e, 0x0432]) =
     Inr (ustr ''Pyotr Ivanov'')"
proof -
  have a: "transliterate JNull = Inr []" by (simp add: transliterate_def)
  have b: "(c, r) \<in> set CYRILLIC_MAP \<longrightarrow>
      transliterate (JStr (c # s)) = Inr (r @ projr (transliterate (JStr s)))"
    by (simp add: transliterate_str py_translate_Cons TRANS_TABLE_entry)
  have c: "c' \<notin> fst ` set CYRILLIC_MAP \<longrightarrow>
      transliterate (JStr (c' # s)) = Inr (c' # projr (transliterate (JStr s)))"
    by (simp add: transliterate_str py_translate_Cons TRANS_TABLE_absent)
  have d: "transliterate (JStr (s @ s')) =
      Inr (projr (transliterate (JStr s)) @ projr (transliterate (JStr s')))"
    by (simp add: transliterate_str py_translate_def)
  have e: "transliterate (JStr [0x042a]) = Inr [] \<and> transliterate (JStr [0x044a]) = Inr [] \<and>
   transliterate (JStr [0x042c]) = Inr [] \<and> transliterate (JStr [0x044c]) = Inr []"
    using signs by (simp add: transliterate_str py_translate_def)
  have f: "transliterate (JStr [0x0429]) = Inr (ustr ''Shch'')"
    by (simp add: transliterate_str py_translate_def TRANS_TABLE_def CYRILLIC_MAP_def)
  have g: "transliterate (JStr [0x041f, 0x0451, 0x0442, 0x0440, 0x20,
                        0x0418, 0x0432, 0x0430, 0x043d, 0x043e, 0x0432]) =
     Inr (ustr ''Pyotr Ivanov'')"
    by (simp add: transliterate_str py_translate_def TRANS_TABLE_def CYRILLIC_MAP_def)
  have a2: "transliterate (JStr []) = Inr []" by (simp add: transliterate_def)
  have h: "\<exists>r. transliterate (JStr s) = Inr r" by (simp add: transliterate_str)
  show ?thesis
    using a a2 h b c d e f g by simp
qed

theorem transliterate_table_witness:
  "(0x0429, ustr ''Shch'') \<in> set CYRILLIC_MAP \<and> 0x78 \<notin> fst ` set CYRILLIC_MAP \<and>
   transliterate (JStr [0x0429, 0x78]) = Inr (ustr ''Shchx'') \<and>
   transliterate (JStr [0x78, 0x0429]) = Inr (ustr ''xShch'')"
proof -
  have m: "(0x0429, ustr ''Shch'') \<in> set CYRILLIC_MAP"
    by (simp add: CYRILLIC_MAP_def)
  have n: "0x78 \<notin> fst ` set CYRILLIC_MAP"
    by (simp add: CYRILLIC_MAP_def)
  have x: "transliterate (JStr [0x78]) = Inr [0x78]"
    using transliterate_table [of "[]" "0x429" "ustr ''Shch''" "0x78" "[]"] n by simp
  have y: "transliterate (JStr [0x0429]) = Inr (ustr ''Shch'')"
    using transliterate_table [of "[]" "0x429" "ustr ''Shch''" "0x78" "[]"] by simp
  have p: "transliterate (JStr [0x0429, 0x78]) = Inr (ustr ''Shchx'')"
    using transliterate_table [of "[0x78]" "0x429" "ustr ''Shch''" "0x78" "[]"] m x by simp
  have q: "transliterate (JStr [0x78, 0x0429]) = Inr (ustr ''xShch'')"
    using transliterate_table [of "[0x0429]" "0x429" "ustr ''Shch''" "0x78" "[]"] n y by simp
  show ?thesis using m n p q by simp
qed

section \<open>Integer coercion: what it computes\<close>

lemma str_nat_digits: "list_all is_digit (str_nat n)"
proof (induction n rule: str_nat.induct)
  case (1 n)
  show ?case
  proof (cases "n < 10")
    case True
    then show ?thesis by (simp add: str_nat.simps [of n] is_digit_def)
  next
    case False
    have "n mod 10 < 10" by simp
    then have "is_digit (48 + n mod 10)" unfolding is_digit_def by linarith
    with False 1 show ?thesis by (simp add: str_nat.simps [of n])
  qed
qed

lemma str_nat_nonempty: "str_nat n \<noteq> []"
  by (simp add: str_nat.simps [of n])


lemma int_digits_all:
  "list_all is_digit ds \<Longrightarrow> int_digits acc ds = (digits_value acc ds, [])"
  by (induction acc ds rule: int_digits.induct) (simp_all add: digits_value_def)

lemma digits_value_str_nat: "digits_value 0 (str_nat n) = n"
proof (induction n rule: str_nat.induct)
  case (1 n)
  show ?case
  proof (cases "n < 10")
    case True
    then show ?thesis by (simp add: str_nat.simps [of n] digits_value_def)
  next
    case False
    with 1 have "digits_value 0 (str_nat (n div 10)) = n div 10" by simp
    with False show ?thesis
      by (simp add: str_nat.simps [of n] digits_value_def)
  qed
qed

lemma digit_facts:
  "is_digit c \<Longrightarrow> c < 128 \<and> \<not> c_isspace c \<and> c \<noteq> 43 \<and> c \<noteq> 45"
  by (auto simp: is_digit_def c_isspace_def)

lemma ascii_digits_unchanged:
  "list_all is_digit ds \<Longrightarrow> map (ascii_decimal_space dec) ds = ds"
  by (induction ds) (auto simp: ascii_decimal_space_def dest: digit_facts)

lemma py_int_digits:
  assumes "list_all is_digit ds" "ds \<noteq> []"
  shows "py_int dec ds = Some (int (digits_value 0 ds))"
proof -
  from assms obtain c r where ds: "ds = c # r" by (cases ds) auto
  with assms have c: "is_digit c" and r: "list_all is_digit r" by auto
  have v: "digits_value (c - 48) r = digits_value 0 ds"
    by (simp add: ds digits_value_def)
  have m: "map (ascii_decimal_space dec) ds = ds"
    by (rule ascii_digits_unchanged [OF assms(1)])
  show ?thesis
    unfolding py_int_def m using digit_facts [OF c] c v
    by (simp add: ds int_digits_all [OF r])
qed

lemma py_int_minus_digits:
  assumes "list_all is_digit ds" "ds \<noteq> []"
  shows "py_int dec (45 # ds) = Some (- int (digits_value 0 ds))"
proof -
  from assms obtain c r where ds: "ds = c # r" by (cases ds) auto
  with assms have c: "is_digit c" and r: "list_all is_digit r" by auto
  have v: "digits_value (c - 48) r = digits_value 0 ds"
    by (simp add: ds digits_value_def)
  have m: "map (ascii_decimal_space dec) (45 # ds) = 45 # ds"
    by (simp add: ascii_digits_unchanged [OF assms(1)] ascii_decimal_space_def)
  show ?thesis
    unfolding py_int_def m using c v
    by (simp add: ds int_digits_all [OF r] c_isspace_def)
qed

lemma py_int_str_int: "py_int dec (str_int n) = Some n"
proof (cases "n < 0")
  case True
  then show ?thesis
    by (simp add: str_int_def py_int_minus_digits str_nat_digits str_nat_nonempty
        digits_value_str_nat)
next
  case False
  then show ?thesis
    by (simp add: str_int_def py_int_digits str_nat_digits str_nat_nonempty
        digits_value_str_nat)
qed

lemma ascii_decimal_space_minus: "ascii_decimal_space dec c = 45 \<Longrightarrow> c = 45"
  by (auto simp: ascii_decimal_space_def split: if_splits option.splits)

lemma py_int_negative:
  assumes "py_int dec s = Some n" "n < 0"
  shows "45 \<in> set s"
proof -
  define t where "t = dropWhile c_isspace (map (ascii_decimal_space dec) s)"
  have "t \<noteq> [] \<and> hd t = 45"
  proof (rule ccontr)
    assume "\<not> (t \<noteq> [] \<and> hd t = 45)"
    with assms show False
      unfolding py_int_def t_def [symmetric]
      by (auto simp: Let_def split: list.splits if_splits prod.splits)
  qed
  then have "45 \<in> set t" by (cases t) auto
  then have "45 \<in> set (map (ascii_decimal_space dec) s)"
    unfolding t_def using set_dropWhileD by fastforce
  then show ?thesis by (auto dest: ascii_decimal_space_minus)
qed

lemma parse_int_nonneg:
  assumes "\<And>n. v = JInt n \<Longrightarrow> 0 \<le> n" "\<And>s. v = JStr s \<Longrightarrow> 45 \<notin> set s"
  shows "0 \<le> parse_int dec v"
proof (cases v)
  case (JInt n)
  with assms(1) show ?thesis by (simp add: parse_int_def int_of_str_def py_int_str_int)
next
  case (JStr s)
  with assms(2) have "45 \<notin> set s" by simp
  then have "\<And>n. py_int dec s = Some n \<Longrightarrow> 0 \<le> n"
    using py_int_negative by fastforce
  with JStr show ?thesis by (simp add: parse_int_def int_of_str_def split: option.splits)
next
  case JNull
  then show ?thesis by (simp add: parse_int_def int_of_str_def py_int_def Let_def is_digit_def c_isspace_def ascii_decimal_space_def)
next
  case (JBool b)
  then show ?thesis by (simp add: parse_int_def int_of_str_def py_int_def Let_def is_digit_def c_isspace_def ascii_decimal_space_def)
qed (simp_all add: parse_int_def int_of_str_def)

lemma parse_int_examples:
  "parse_int dec (JStr (ustr ''abc'')) = 0 \<and> parse_int dec JNull = 0 \<and>
   parse_int dec (dict_get [] key) = 0 \<and> parse_int dec (JStr (ustr ''2005'')) = 2005"
  by (simp add: parse_int_def int_of_str_def py_int_def Let_def is_digit_def c_isspace_def
      ascii_decimal_space_def dict_get_def)

lemma process_entry_fields:
  assumes "process_entry ud st (JObj e) = Inr st'" "movies st' \<noteq> movies st"
  shows "movies st' = movies st @ [last (movies st')] \<and>
         releaseYear (last (movies st')) = parse_int (decimal ud) (dict_get e (ustr ''yearProduced'')) \<and>
         registryYear (last (movies st')) = parse_int (decimal ud) (dict_get e (ustr ''yearAdded''))"
  using assms unfolding process_entry_def
  by (auto simp: Let_def split: sum.splits if_splits)

text \<open>Unfolding rules for running the model on concrete input.\<close>

lemmas py_eval =
  parse_int_def int_of_str_def py_int_def Let_def is_digit_def c_isspace_def
  ascii_decimal_space_def dict_get_def py_or_def resolve_title_def py_strip_def
  py_strip_where_def py_strip_chars_def is_space_def slugify_def normalize_nfkd_def
  encode_ascii_ignore_def ascii_lower_def in_az09_def str_int_def parse_directors_def
  transliterate_def py_translate_def DELIMITERS_def STRIP_CHARS_def process_entry_def
  convert_def initial_state_def plain_unicode_def

lemma str_nat_small [simp]: "n < 10 \<Longrightarrow> str_nat n = [48 + n]"
  by (simp add: str_nat.simps [of n])

lemma str_nat_numeral [simp]:
  "\<not> numeral k < (10::nat) \<Longrightarrow>
   str_nat (numeral k) = str_nat (numeral k div 10) @ [48 + numeral k mod 10]"
  by (simp add: str_nat.simps [of "numeral k"])

text \<open>
  C2, amended. \<open>parse_int\<close> is \<open>int(str(value))\<close>, and 0 when that conversion
  fails: it gives 0 for \<open>"abc"\<close>, for \<open>null\<close> and for a missing field, 2005 for
  \<open>"2005"\<close>, and every integer back unchanged, a negative one included. The result is
  non-negative unless the value is a negative integer or a string with a minus sign in
  it. The record mapper writes \<open>releaseYear\<close> and \<open>registryYear\<close> as \<open>parse_int\<close>
  of \<open>yearProduced\<close> and of \<open>yearAdded\<close>, the same function for both.
\<close>

theorem parse_int_years:
  "parse_int dec (JStr (ustr ''abc'')) = 0 \<and> parse_int dec JNull = 0 \<and>
   parse_int dec (dict_get [] key) = 0 \<and> parse_int dec (JStr (ustr ''2005'')) = 2005 \<and>
   (int_of_str dec v = None \<longrightarrow> parse_int dec v = 0) \<and>
   parse_int dec (JInt n) = n \<and>
   ((\<forall>k. w = JInt k \<longrightarrow> 0 \<le> k) \<and> (\<forall>s. w = JStr s \<longrightarrow> 45 \<notin> set s) \<longrightarrow>
      0 \<le> parse_int dec w) \<and>
   (process_entry ud st (JObj e) = Inr st' \<and> movies st' \<noteq> movies st \<longrightarrow>
      releaseYear (last (movies st')) =
        parse_int (decimal ud) (dict_get e (ustr ''yearProduced'')) \<and>
      registryYear (last (movies st')) =
        parse_int (decimal ud) (dict_get e (ustr ''yearAdded'')))"
proof -
  have a: "int_of_str dec v = None \<longrightarrow> parse_int dec v = 0"
    by (simp add: parse_int_def)
  have b: "parse_int dec (JInt n) = n"
    by (simp add: parse_int_def int_of_str_def py_int_str_int)
  have c: "(\<forall>k. w = JInt k \<longrightarrow> 0 \<le> k) \<and> (\<forall>s. w = JStr s \<longrightarrow> 45 \<notin> set s) \<longrightarrow>
      0 \<le> parse_int dec w"
    using parse_int_nonneg [of w dec] by blast
  have d: "process_entry ud st (JObj e) = Inr st' \<and> movies st' \<noteq> movies st \<longrightarrow>
      releaseYear (last (movies st')) =
        parse_int (decimal ud) (dict_get e (ustr ''yearProduced'')) \<and>
      registryYear (last (movies st')) =
        parse_int (decimal ud) (dict_get e (ustr ''yearAdded''))"
    using process_entry_fields [of ud st e st'] by blast
  show ?thesis
    using parse_int_examples [of dec key] a b c d by blast
qed

theorem parse_int_years_witness:
  "int_of_str (decimal plain_unicode) (JFloat FloatNonzero) = None \<and>
   parse_int (decimal plain_unicode) (JFloat FloatNonzero) = 0 \<and>
   parse_int (decimal plain_unicode) (JInt 1999) = 1999 \<and>
   0 \<le> parse_int (decimal plain_unicode) (JStr (ustr ''+7'')) \<and>
   process_entry plain_unicode initial_state
     (JObj [(ustr ''name'', JStr (ustr ''Echo'')), (ustr ''yearProduced'', JStr (ustr ''2019'')),
            (ustr ''yearAdded'', JInt 2021)]) =
     Inr \<lparr>movies = [\<lparr>slug = ustr ''echo-2019'', title = ustr ''Echo'', releaseYear = 2019,
                     registryYear = 2021, directors = [], cast = [], runtimeMinutes = 0,
                     genres = [], logline = [], summary = [], whyImportant = [],
                     watchUrl = [], image_url = []\<rparr>],
          slug_counts = [ustr ''echo-2019'' \<mapsto> 1]\<rparr> \<and>
   parse_int (decimal plain_unicode)
     (dict_get [(ustr ''name'', JStr (ustr ''Echo'')), (ustr ''yearProduced'', JStr (ustr ''2019'')),
            (ustr ''yearAdded'', JInt 2021)] (ustr ''yearProduced'')) = 2019 \<and>
   parse_int (decimal plain_unicode)
     (dict_get [(ustr ''name'', JStr (ustr ''Echo'')), (ustr ''yearProduced'', JStr (ustr ''2019'')),
            (ustr ''yearAdded'', JInt 2021)] (ustr ''yearAdded'')) = 2021"
proof -
  have p: "process_entry plain_unicode initial_state
     (JObj [(ustr ''name'', JStr (ustr ''Echo'')), (ustr ''yearProduced'', JStr (ustr ''2019'')),
            (ustr ''yearAdded'', JInt 2021)]) =
     Inr \<lparr>movies = [\<lparr>slug = ustr ''echo-2019'', title = ustr ''Echo'', releaseYear = 2019,
                     registryYear = 2021, directors = [], cast = [], runtimeMinutes = 0,
                     genres = [], logline = [], summary = [], whyImportant = [],
                     watchUrl = [], image_url = []\<rparr>],
          slug_counts = [ustr ''echo-2019'' \<mapsto> 1]\<rparr>"
    by (simp add: py_eval)
  have q: "int_of_str (decimal plain_unicode) (JFloat FloatNonzero) = None"
    by (simp add: int_of_str_def)
  have r: "(\<forall>k. JStr (ustr ''+7'') = JInt k \<longrightarrow> 0 \<le> k) \<and>
           (\<forall>s. JStr (ustr ''+7'') = JStr s \<longrightarrow> 45 \<notin> set s)"
    by simp
  note t = parse_int_years [of "decimal plain_unicode" "[]" "JFloat FloatNonzero" 1999
      "JStr (ustr ''+7'')" plain_unicode initial_state
      "[(ustr ''name'', JStr (ustr ''Echo'')), (ustr ''yearProduced'', JStr (ustr ''2019'')),
            (ustr ''yearAdded'', JInt 2021)]"
      "\<lparr>movies = [\<lparr>slug = ustr ''echo-2019'', title = ustr ''Echo'', releaseYear = 2019,
                     registryYear = 2021, directors = [], cast = [], runtimeMinutes = 0,
                     genres = [], logline = [], summary = [], whyImportant = [],
                     watchUrl = [], image_url = []\<rparr>],
          slug_counts = [ustr ''echo-2019'' \<mapsto> 1]\<rparr>"]
  have i: "movies \<lparr>movies = [\<lparr>slug = ustr ''echo-2019'', title = ustr ''Echo'', releaseYear = 2019,
                     registryYear = 2021, directors = [], cast = [], runtimeMinutes = 0,
                     genres = [], logline = [], summary = [], whyImportant = [],
                     watchUrl = [], image_url = []\<rparr>],
          slug_counts = [ustr ''echo-2019'' \<mapsto> 1]\<rparr> \<noteq> movies initial_state"
    by (simp add: initial_state_def)
  from t p q r i show ?thesis by simp
qed

text \<open>
  C2 as stated fails: a record with \<open>yearProduced\<close> the string \<open>-5\<close> and
  \<open>yearAdded\<close> the number \<open>-3\<close> is written with a negative release year and a
  negative registry year.
\<close>

theorem year_negative_counterexample:
  "map_sum id (map releaseYear)
     (convert plain_unicode
        [JObj [(ustr ''name'', JStr (ustr ''Echo'')),
               (ustr ''yearProduced'', JStr (ustr ''-5'')),
               (ustr ''yearAdded'', JInt (- 3))]]) = Inr [- 5] \<and>
   map_sum id (map registryYear)
     (convert plain_unicode
        [JObj [(ustr ''name'', JStr (ustr ''Echo'')),
               (ustr ''yearProduced'', JStr (ustr ''-5'')),
               (ustr ''yearAdded'', JInt (- 3))]]) = Inr [- 3]"
  by (simp add: py_eval)

section \<open>Record mapper: directors, skipped records\<close>

lemma parse_directors_falsy: "\<not> truthy v \<Longrightarrow> parse_directors v = Inr []"
  by (simp add: py_eval)

lemma parse_directors_str: "\<exists>ds. parse_directors (JStr s) = Inr ds"
  by (simp add: parse_directors_def py_or_def transliterate_str Let_def transliterate_def)

lemma parse_directors_other:
  "truthy v \<Longrightarrow> \<forall>s. v \<noteq> JStr s \<Longrightarrow> parse_directors v = Inl AttributeError"
  by (cases v) (simp_all add: parse_directors_def py_or_def transliterate_def)

lemma process_entry_no_director:
  assumes "resolve_title e = Inr t" "t \<noteq> []" "\<not> truthy (dict_get e (ustr ''director''))"
  shows "\<exists>st'. process_entry ud st (JObj e) = Inr st' \<and>
           movies st' = movies st @ [last (movies st')] \<and>
           directors (last (movies st')) = []"
  using assms by (simp add: process_entry_def Let_def parse_directors_falsy)

text \<open>
  C3, amended. A director value that is absent, \<open>null\<close> or false in any other way (the
  empty string, 0, \<open>false\<close>, an empty array or object) gives an empty directors sequence
  and no error; a string never fails, whatever it holds; a true value that is not a
  string has no \<open>translate\<close> and raises AttributeError. A record with a title and a
  false director value is written with an empty directors sequence.
\<close>

theorem parse_directors_total:
  "(\<not> truthy v \<longrightarrow> parse_directors v = Inr []) \<and>
   (\<exists>ds. parse_directors (JStr s) = Inr ds) \<and>
   (truthy v \<and> (\<forall>s. v \<noteq> JStr s) \<longrightarrow> parse_directors v = Inl AttributeError) \<and>
   (resolve_title e = Inr t \<and> t \<noteq> [] \<and> \<not> truthy (dict_get e (ustr ''director'')) \<longrightarrow>
      (\<exists>st'. process_entry ud st (JObj e) = Inr st' \<and>
             movies st' = movies st @ [last (movies st')] \<and>
             directors (last (movies st')) = []))"
  using parse_directors_falsy [of v] parse_directors_str [of s] parse_directors_other [of v]
    process_entry_no_director [of e t ud st]
  by blast

theorem parse_directors_total_witness:
  "parse_directors (JInt 0) = Inr [] \<and>
   parse_directors (JInt 5) = Inl AttributeError \<and>
   (\<exists>st'. process_entry plain_unicode initial_state
            (JObj [(ustr ''name'', JStr (ustr ''Echo'')), (ustr ''director'', JStr [])]) = Inr st' \<and>
          movies st' = movies initial_state @ [last (movies st')] \<and>
          directors (last (movies st')) = [])"
proof -
  have a: "\<not> truthy (JInt 0)" by simp
  have b: "truthy (JInt 5) \<and> (\<forall>s. JInt 5 \<noteq> JStr s)" by simp
  have c: "resolve_title [(ustr ''name'', JStr (ustr ''Echo'')), (ustr ''director'', JStr [])] =
             Inr (ustr ''Echo'') \<and> ustr ''Echo'' \<noteq> [] \<and>
           \<not> truthy (dict_get [(ustr ''name'', JStr (ustr ''Echo'')), (ustr ''director'', JStr [])]
                 (ustr ''director''))"
    by (simp add: py_eval)
  from a parse_directors_total [of "JInt 0"]
  have 1: "parse_directors (JInt 0) = Inr []" by blast
  from b parse_directors_total [of "JInt 5"]
  have 2: "parse_directors (JInt 5) = Inl AttributeError" by blast
  from c parse_directors_total [of JNull "[]"
      "[(ustr ''name'', JStr (ustr ''Echo'')), (ustr ''director'', JStr [])]" "ustr ''Echo''"
      plain_unicode initial_state]
  have 3: "\<exists>st'. process_entry plain_unicode initial_state
            (JObj [(ustr ''name'', JStr (ustr ''Echo'')), (ustr ''director'', JStr [])]) = Inr st' \<and>
          movies st' = movies initial_state @ [last (movies st')] \<and>
          directors (last (movies st')) = []" by blast
  from 1 2 3 show ?thesis by blast
qed

text \<open>
  C3 as stated fails: the number 5 as \<open>director\<close> of a record with a title aborts the
  run with AttributeError.
\<close>

theorem director_number_counterexample:
  "convert plain_unicode
     [JObj [(ustr ''name'', JStr (ustr ''Echo'')), (ustr ''director'', JInt 5)]] =
   Inl AttributeError"
  by (simp add: py_eval)

lemma run_loop_append:
  "run_loop ud st (xs @ ys) =
     (case run_loop ud st xs of Inl err \<Rightarrow> Inl err | Inr st' \<Rightarrow> run_loop ud st' ys)"
  by (induction xs arbitrary: st) (simp_all split: sum.splits)

lemma process_entry_skip: "resolve_title e = Inr [] \<Longrightarrow> process_entry ud st (JObj e) = Inr st"
  by (simp add: process_entry_def)

lemma run_loop_skip:
  "resolve_title e = Inr [] \<Longrightarrow>
   run_loop ud st (xs @ JObj e # ys) = run_loop ud st (xs @ ys)"
  by (simp add: run_loop_append process_entry_skip split: sum.splits)

text \<open>
  C9. A record whose resolved title is empty produces no output record, raises nothing
  and leaves the state, the counters included, as it was: the loop and the whole run
  give the same result with the record as without it.
\<close>

theorem empty_title_skipped:
  "resolve_title e = Inr [] \<longrightarrow>
     process_entry ud st (JObj e) = Inr st \<and>
     run_loop ud st (xs @ JObj e # ys) = run_loop ud st (xs @ ys) \<and>
     convert ud (xs @ JObj e # ys) = convert ud (xs @ ys)"
  by (simp add: process_entry_skip run_loop_skip convert_def)

theorem empty_title_skipped_witness:
  "resolve_title [(ustr ''originalName'', JStr (ustr ''  '')), (ustr ''name'', JStr [])] = Inr [] \<and>
   convert plain_unicode
     [JObj [(ustr ''name'', JStr (ustr ''Echo''))],
      JObj [(ustr ''originalName'', JStr (ustr ''  '')), (ustr ''name'', JStr [])],
      JObj [(ustr ''name'', JStr (ustr ''Echo''))]] =
   convert plain_unicode
     [JObj [(ustr ''name'', JStr (ustr ''Echo''))],
      JObj [(ustr ''name'', JStr (ustr ''Echo''))]] \<and>
   map_sum id (map slug) (convert plain_unicode
     [JObj [(ustr ''name'', JStr (ustr ''Echo''))],
      JObj [(ustr ''originalName'', JStr (ustr ''  '')), (ustr ''name'', JStr [])],
      JObj [(ustr ''name'', JStr (ustr ''Echo''))]]) = Inr [ustr ''echo'', ustr ''echo-2'']"
proof -
  have h: "resolve_title [(ustr ''originalName'', JStr (ustr ''  '')), (ustr ''name'', JStr [])] = Inr []"
    by (simp add: py_eval)
  from h empty_title_skipped [of "[(ustr ''originalName'', JStr (ustr ''  '')), (ustr ''name'', JStr [])]"
      plain_unicode initial_state "[JObj [(ustr ''name'', JStr (ustr ''Echo''))]]"
      "[JObj [(ustr ''name'', JStr (ustr ''Echo''))]]"]
  have e: "convert plain_unicode
     ([JObj [(ustr ''name'', JStr (ustr ''Echo''))]] @
      JObj [(ustr ''originalName'', JStr (ustr ''  '')), (ustr ''name'', JStr [])] #
      [JObj [(ustr ''name'', JStr (ustr ''Echo''))]]) =
   convert plain_unicode
     ([JObj [(ustr ''name'', JStr (ustr ''Echo''))]] @
      [JObj [(ustr ''name'', JStr (ustr ''Echo''))]])" by blast
  have s: "map_sum id (map slug) (convert plain_unicode
     ([JObj [(ustr ''name'', JStr (ustr ''Echo''))]] @
      [JObj [(ustr ''name'', JStr (ustr ''Echo''))]])) = Inr [ustr ''echo'', ustr ''echo-2'']"
    by (simp add: py_eval)
  from h e s show ?thesis by (simp only: append_Cons append_Nil)
qed

lemma py_strip_blank: "list_all is_space s \<Longrightarrow> py_strip s = []"
proof -
  assume "list_all is_space s"
  then have d: "dropWhile is_space s = []" by (induction s) simp_all
  show ?thesis unfolding py_strip_def py_strip_where_def d by simp
qed

lemma resolve_title_original:
  "dict_get e (ustr ''originalName'') = JStr s \<Longrightarrow> s \<noteq> [] \<Longrightarrow>
   resolve_title e = Inr (py_strip s)"
  by (simp add: resolve_title_def py_or_def)

lemma resolve_title_fallback:
  "dict_get e (ustr ''originalName'') = JNull \<or> dict_get e (ustr ''originalName'') = JStr [] \<Longrightarrow>
   resolve_title e =
     (case py_or (dict_get e (ustr ''name'')) (JStr []) of
        JStr n \<Rightarrow> Inr (py_strip n)
      | _ \<Rightarrow> Inl AttributeError)"
  by (auto simp: resolve_title_def py_or_def)

lemma resolve_title_false:
  "\<not> truthy (dict_get e (ustr ''originalName'')) \<Longrightarrow>
   resolve_title e =
     (case py_or (dict_get e (ustr ''name'')) (JStr []) of
        JStr n \<Rightarrow> Inr (py_strip n)
      | _ \<Rightarrow> Inl AttributeError)"
  by (cases "truthy (dict_get e (ustr ''name''))") (simp_all add: resolve_title_def py_or_def)

lemma resolve_title_true:
  "truthy (dict_get e (ustr ''originalName'')) \<Longrightarrow>
   resolve_title e =
     (case dict_get e (ustr ''originalName'') of
        JStr s \<Rightarrow> Inr (py_strip s)
      | _ \<Rightarrow> Inl AttributeError)"
  by (simp add: resolve_title_def py_or_def)

text \<open>
  C10, amended. The fallback to \<open>name\<close> is taken exactly when \<open>originalName\<close> is absent
  or false (\<open>null\<close>, the empty string, 0, \<open>false\<close>, an empty array or object); a true
  \<open>originalName\<close> alone decides the title. A non-empty string \<open>originalName\<close> is the
  title, stripped, whatever \<open>name\<close> holds; when it is all blanks the title is empty and
  the record is skipped.
\<close>

theorem blank_original_name_skipped:
  "(\<not> truthy (dict_get e (ustr ''originalName'')) \<longrightarrow>
      resolve_title e =
        (case py_or (dict_get e (ustr ''name'')) (JStr []) of
           JStr n \<Rightarrow> Inr (py_strip n)
         | _ \<Rightarrow> Inl AttributeError)) \<and>
   (truthy (dict_get e (ustr ''originalName'')) \<longrightarrow>
      resolve_title e =
        (case dict_get e (ustr ''originalName'') of
           JStr s \<Rightarrow> Inr (py_strip s)
         | _ \<Rightarrow> Inl AttributeError)) \<and>
   (dict_get e (ustr ''originalName'') = JStr s \<and> s \<noteq> [] \<longrightarrow>
      resolve_title e = Inr (py_strip s)) \<and>
   (dict_get e (ustr ''originalName'') = JStr s \<and> s \<noteq> [] \<and> list_all is_space s \<longrightarrow>
      resolve_title e = Inr [] \<and> process_entry ud st (JObj e) = Inr st) \<and>
   (dict_get e (ustr ''originalName'') = JNull \<or> dict_get e (ustr ''originalName'') = JStr [] \<longrightarrow>
      resolve_title e =
        (case py_or (dict_get e (ustr ''name'')) (JStr []) of
           JStr n \<Rightarrow> Inr (py_strip n)
         | _ \<Rightarrow> Inl AttributeError))"
  using resolve_title_original [of e s] resolve_title_fallback [of e]
    py_strip_blank [of s] process_entry_skip [of e ud st]
    resolve_title_false [of e] resolve_title_true [of e]
  by auto

theorem blank_original_name_skipped_witness:
  "resolve_title [(ustr ''originalName'', JStr (ustr ''  '')), (ustr ''name'', JStr (ustr ''Echo''))] =
     Inr [] \<and>
   process_entry plain_unicode initial_state
     (JObj [(ustr ''originalName'', JStr (ustr ''  '')), (ustr ''name'', JStr (ustr ''Echo''))]) =
     Inr initial_state \<and>
   resolve_title [(ustr ''originalName'', JBool False), (ustr ''name'', JStr (ustr ''Echo''))] =
     Inr (ustr ''Echo'') \<and>
   resolve_title [(ustr ''originalName'', JStr (ustr ''Ekho'')), (ustr ''name'', JStr (ustr ''Echo''))] =
     Inr (ustr ''Ekho'')"
proof -
  have h: "dict_get [(ustr ''originalName'', JStr (ustr ''  '')), (ustr ''name'', JStr (ustr ''Echo''))]
             (ustr ''originalName'') = JStr (ustr ''  '') \<and> ustr ''  '' \<noteq> [] \<and>
           list_all is_space (ustr ''  '')"
    by (simp add: dict_get_def is_space_def)
  from h blank_original_name_skipped
    [of "[(ustr ''originalName'', JStr (ustr ''  '')), (ustr ''name'', JStr (ustr ''Echo''))]"
        "ustr ''  ''" plain_unicode initial_state]
  have 1: "resolve_title [(ustr ''originalName'', JStr (ustr ''  '')), (ustr ''name'', JStr (ustr ''Echo''))] =
     Inr [] \<and>
   process_entry plain_unicode initial_state
     (JObj [(ustr ''originalName'', JStr (ustr ''  '')), (ustr ''name'', JStr (ustr ''Echo''))]) =
     Inr initial_state" by blast
  have g: "\<not> truthy (dict_get [(ustr ''originalName'', JBool False), (ustr ''name'', JStr (ustr ''Echo''))]
             (ustr ''originalName''))"
    by (simp add: dict_get_def)
  from g blank_original_name_skipped
    [of "[(ustr ''originalName'', JBool False), (ustr ''name'', JStr (ustr ''Echo''))]"]
  have "resolve_title [(ustr ''originalName'', JBool False), (ustr ''name'', JStr (ustr ''Echo''))] =
      (case py_or (dict_get [(ustr ''originalName'', JBool False), (ustr ''name'', JStr (ustr ''Echo''))]
                     (ustr ''name'')) (JStr []) of
           JStr n \<Rightarrow> Inr (py_strip n)
         | _ \<Rightarrow> Inl AttributeError)" by blast
  then have 2: "resolve_title [(ustr ''originalName'', JBool False), (ustr ''name'', JStr (ustr ''Echo''))] =
     Inr (ustr ''Echo'')"
    by (simp add: dict_get_def py_or_def py_strip_def py_strip_where_def is_space_def)
  have k: "truthy (dict_get [(ustr ''originalName'', JStr (ustr ''Ekho'')), (ustr ''name'', JStr (ustr ''Echo''))]
             (ustr ''originalName''))"
    by (simp add: dict_get_def)
  from k blank_original_name_skipped
    [of "[(ustr ''originalName'', JStr (ustr ''Ekho'')), (ustr ''name'', JStr (ustr ''Echo''))]"]
  have "resolve_title [(ustr ''originalName'', JStr (ustr ''Ekho'')), (ustr ''name'', JStr (ustr ''Echo''))] =
      (case dict_get [(ustr ''originalName'', JStr (ustr ''Ekho'')), (ustr ''name'', JStr (ustr ''Echo''))]
              (ustr ''originalName'') of
           JStr s \<Rightarrow> Inr (py_strip s)
         | _ \<Rightarrow> Inl AttributeError)" by blast
  then have 3: "resolve_title [(ustr ''originalName'', JStr (ustr ''Ekho'')), (ustr ''name'', JStr (ustr ''Echo''))] =
     Inr (ustr ''Ekho'')"
    by (simp add: dict_get_def py_strip_def py_strip_where_def is_space_def)
  from 1 2 3 show ?thesis by blast
qed

text \<open>
  C10 as stated fails: with \<open>originalName\<close> the number 0, present and not the empty
  string, the title is taken from \<open>name\<close>.
\<close>

theorem original_name_zero_counterexample:
  "dict_get [(ustr ''originalName'', JInt 0), (ustr ''name'', JStr (ustr ''Echo''))]
     (ustr ''originalName'') = JInt 0 \<and>
   resolve_title [(ustr ''originalName'', JInt 0), (ustr ''name'', JStr (ustr ''Echo''))] =
     Inr (ustr ''Echo'') \<and>
   map_sum id (map title)
     (convert plain_unicode
        [JObj [(ustr ''originalName'', JInt 0), (ustr ''name'', JStr (ustr ''Echo''))]]) =
     Inr [ustr ''Echo'']"
  by (simp add: py_eval)

section \<open>Director parser: what it computes\<close>

lemma py_split_nonempty: "py_split sep s \<noteq> []"
  by (induction s) (auto split: list.splits)

lemma py_split_no_sep: "p \<in> set (py_split sep s) \<Longrightarrow> sep \<notin> set p"
proof (induction s arbitrary: p)
  case Nil
  then show ?case by simp
next
  case (Cons c s)
  show ?case
  proof (cases "c = sep")
    case True
    with Cons show ?thesis by auto
  next
    case False
    obtain q qs where q: "py_split sep s = q # qs"
      using py_split_nonempty [of sep s] by (cases "py_split sep s") auto
    with False Cons.prems have "p = c # q \<or> p \<in> set qs" by auto
    with False q Cons.IH [of q] Cons.IH [of p] show ?thesis by auto
  qed
qed

lemma set_py_strip_where: "set (py_strip_where P s) \<subseteq> set s"
proof
  fix x assume "x \<in> set (py_strip_where P s)"
  then have "x \<in> set (dropWhile P (rev (dropWhile P s)))"
    by (simp add: py_strip_where_def)
  then have "x \<in> set (rev (dropWhile P s))" by (rule set_dropWhileD)
  then have "x \<in> set (dropWhile P s)" by simp
  then show "x \<in> set s" by (rule set_dropWhileD)
qed

lemma last_dropWhile: "dropWhile P xs \<noteq> [] \<Longrightarrow> last (dropWhile P xs) = last xs"
  by (induction xs) (auto split: if_splits)

lemma py_strip_where_ends:
  assumes "py_strip_where P s \<noteq> []"
  shows "\<not> P (hd (py_strip_where P s)) \<and> \<not> P (last (py_strip_where P s))"
proof -
  let ?a = "dropWhile P s"
  let ?b = "dropWhile P (rev ?a)"
  from assms have b: "?b \<noteq> []" by (simp add: py_strip_where_def)
  then have a: "?a \<noteq> []" by (cases "?a") simp_all
  have "last (py_strip_where P s) = hd ?b"
    using b by (simp add: py_strip_where_def last_rev)
  moreover have "\<not> P (hd ?b)" using b by (rule hd_dropWhile)
  moreover have "hd (py_strip_where P s) = last ?b"
    using b by (simp add: py_strip_where_def hd_rev)
  moreover have "last ?b = last (rev ?a)" using b by (rule last_dropWhile)
  moreover have "last (rev ?a) = hd ?a" using a by (simp add: last_rev)
  moreover have "\<not> P (hd ?a)" using a by (rule hd_dropWhile)
  ultimately show ?thesis by simp
qed

lemma parse_directors_reference:
  "parse_directors (JStr raw) = Inr (reference_directors (py_strip_chars STRIP_CHARS) raw)"
  by (simp add: parse_directors_def reference_directors_def py_or_def transliterate_str
      DELIMITERS_def Let_def transliterate_def py_translate_def)

lemma reference_directors_names:
  assumes "d \<in> set (reference_directors (py_strip_chars STRIP_CHARS) raw)"
  shows "d \<noteq> [] \<and> 44 \<notin> set d \<and> hd d \<notin> set STRIP_CHARS \<and> last d \<notin> set STRIP_CHARS"
proof -
  from assms obtain p t where p: "p \<in> set (py_split 44 t)"
    and d: "d = py_strip_chars STRIP_CHARS p" and n: "d \<noteq> []"
    unfolding reference_directors_def Let_def by auto
  from p have "44 \<notin> set p" by (rule py_split_no_sep)
  with d set_py_strip_where [of "\<lambda>c. c \<in> set STRIP_CHARS" p] have 1: "44 \<notin> set d"
    by (auto simp: py_strip_chars_def)
  from n d py_strip_where_ends [of "\<lambda>c. c \<in> set STRIP_CHARS" p]
  have 2: "hd d \<notin> set STRIP_CHARS \<and> last d \<notin> set STRIP_CHARS"
    by (simp add: py_strip_chars_def)
  from n 1 2 show ?thesis by simp
qed

lemma directors_example:
  "parse_directors (JStr ([0x0418, 0x0432, 0x0430, 0x043d, 0x20,
                           0x041f, 0x0435, 0x0442, 0x0440, 0x043e, 0x0432] @
                          ustr '' & John Smith'')) =
   Inr [ustr ''Ivan Petrov'', ustr ''John Smith'']"
  by (simp add: py_eval TRANS_TABLE_def CYRILLIC_MAP_def)

text \<open>
  C6, amended. On a string \<open>parse_directors\<close> is the reference algorithm with the
  cleaning the code does: transliterate, replace \<open>" & "\<close>, \<open>" and "\<close>, \<open>";"\<close>,
  \<open>"/"\<close>, \<open>"|"\<close> by a comma in that order, split on commas, strip spaces, tabs,
  carriage returns, line feeds and full stops from both ends of each piece, drop the
  empty pieces, keep the order. Every name returned is non-empty, has no comma, and
  neither starts nor ends with a stripped character. The Cyrillic example gives
  Ivan Petrov and John Smith.
\<close>

theorem parse_directors_algorithm:
  "parse_directors (JStr raw) = Inr (reference_directors (py_strip_chars STRIP_CHARS) raw) \<and>
   (\<forall>d \<in> set (reference_directors (py_strip_chars STRIP_CHARS) raw).
      d \<noteq> [] \<and> 44 \<notin> set d \<and> hd d \<notin> set STRIP_CHARS \<and> last d \<notin> set STRIP_CHARS) \<and>
   parse_directors (JStr ([0x0418, 0x0432, 0x0430, 0x043d, 0x20,
                           0x041f, 0x0435, 0x0442, 0x0440, 0x043e, 0x0432] @
                          ustr '' & John Smith'')) =
   Inr [ustr ''Ivan Petrov'', ustr ''John Smith'']"
  using parse_directors_reference [of raw] reference_directors_names [of _ raw]
    directors_example
  by blast

theorem parse_directors_algorithm_witness:
  "parse_directors (JStr (ustr ''.J. Smith / K. Lee.;'')) =
     Inr [ustr ''J. Smith'', ustr ''K. Lee''] \<and>
   ustr ''K. Lee'' \<noteq> [] \<and> 44 \<notin> set (ustr ''K. Lee'') \<and>
   hd (ustr ''K. Lee'') \<notin> set STRIP_CHARS \<and> last (ustr ''K. Lee'') \<notin> set STRIP_CHARS"
proof -
  have r: "reference_directors (py_strip_chars STRIP_CHARS) (ustr ''.J. Smith / K. Lee.;'') =
           [ustr ''J. Smith'', ustr ''K. Lee'']"
    by (simp add: reference_directors_def py_eval TRANS_TABLE_def CYRILLIC_MAP_def)
  from parse_directors_algorithm [of "ustr ''.J. Smith / K. Lee.;''"] r
  show ?thesis by simp
qed

text \<open>
  C6 as stated fails: the code strips full stops at the start of a piece too, the
  reference algorithm only at the end. On \<open>.John\<close> they differ.
\<close>

theorem leading_period_counterexample:
  "parse_directors (JStr (ustr ''.John'')) = Inr [ustr ''John''] \<and>
   reference_directors spec_clean_piece (ustr ''.John'') = [ustr ''.John'']"
  by (simp add: reference_directors_def spec_clean_piece_def BLANKS_def py_eval
      TRANS_TABLE_def CYRILLIC_MAP_def)

section \<open>Slug generator: the code against the four steps\<close>

lemma hyphenate_re_sub:
  "spec_hyphenate False s = re_sub_dash s \<and>
   spec_hyphenate True s = re_sub_dash (dropWhile (\<lambda>x. \<not> in_az09 x) s)"
  by (induction s) simp_all

lemma trim_leading_dropWhile: "spec_trim_leading s = dropWhile (\<lambda>c. c = 45) s"
  by (induction s) simp_all

lemma trim_trailing_dropWhile:
  "spec_trim_trailing s = rev (dropWhile (\<lambda>c. c = 45) (rev s))"
  by (induction s) (auto simp: dropWhile_append)

lemma strip_hyphens_trim:
  "py_strip_chars [45] s = spec_trim_trailing (spec_trim_leading s)"
  by (simp add: py_strip_chars_def py_strip_where_def trim_leading_dropWhile
      trim_trailing_dropWhile)

lemma slugify_spec: "slugify ud t y = spec_slugify ud t y"
  by (simp add: slugify_def spec_slugify_def Let_def encode_ascii_ignore_def
      strip_hyphens_trim hyphenate_re_sub)

lemma slugify_movie:
  "slugify ud (ustr ''The Movie!!'') 2020 = ustr ''the-movie-2020'' \<and>
   slugify ud (ustr ''The Movie!!'') 0 = ustr ''the-movie''"
  by (simp add: py_eval)

lemma slugify_folds_empty:
  "encode_ascii_ignore (normalize_nfkd ud t) = [] \<Longrightarrow>
   slugify ud t y = (if y = 0 then ustr ''film'' else ustr ''film-'' @ str_int y)"
  by (simp add: slugify_def py_strip_chars_def py_strip_where_def)

text \<open>
  C4. \<open>slugify\<close> is the four-step algorithm of the specification: fold to ASCII,
  lowercase and put one hyphen for each maximal run outside \<open>[a-z0-9]\<close> and trim the
  hyphens at both ends, take \<open>film\<close> for an empty result, append the year exactly when
  it is not zero. "The Movie!!" gives \<open>the-movie-2020\<close> with the year 2020 and
  \<open>the-movie\<close> with the year 0, and a title that folds to the empty string gives
  \<open>film\<close> or \<open>film-{year}\<close>.
\<close>

theorem slugify_algorithm:
  "slugify ud t y = spec_slugify ud t y \<and>
   slugify ud (ustr ''The Movie!!'') 2020 = ustr ''the-movie-2020'' \<and>
   slugify ud (ustr ''The Movie!!'') 0 = ustr ''the-movie'' \<and>
   (encode_ascii_ignore (normalize_nfkd ud t) = [] \<longrightarrow>
      slugify ud t y = (if y = 0 then ustr ''film'' else ustr ''film-'' @ str_int y))"
  using slugify_spec [of ud t y] slugify_movie [of ud] slugify_folds_empty [of ud t y]
  by blast

theorem slugify_algorithm_witness:
  "encode_ascii_ignore (normalize_nfkd plain_unicode [0x0424, 0x0438, 0x043b, 0x044c, 0x043c]) = [] \<and>
   slugify plain_unicode [0x0424, 0x0438, 0x043b, 0x044c, 0x043c] 1999 = ustr ''film-1999'' \<and>
   spec_slugify plain_unicode [0x0424, 0x0438, 0x043b, 0x044c, 0x043c] 0 = ustr ''film''"
proof -
  have h: "encode_ascii_ignore (normalize_nfkd plain_unicode [0x0424, 0x0438, 0x043b, 0x044c, 0x043c]) = []"
    by (simp add: encode_ascii_ignore_def normalize_nfkd_def plain_unicode_def)
  from slugify_algorithm [of plain_unicode "[0x0424, 0x0438, 0x043b, 0x044c, 0x043c]" 1999] h
  have "slugify plain_unicode [0x0424, 0x0438, 0x043b, 0x044c, 0x043c] 1999 =
          (if (1999::int) = 0 then ustr ''film'' else ustr ''film-'' @ str_int 1999)"
    by blast
  then have a: "slugify plain_unicode [0x0424, 0x0438, 0x043b, 0x044c, 0x043c] 1999 =
                  ustr ''film-1999''"
    by (simp add: str_int_def)
  from slugify_algorithm [of plain_unicode "[0x0424, 0x0438, 0x043b, 0x044c, 0x043c]" 0] h
  have "spec_slugify plain_unicode [0x0424, 0x0438, 0x043b, 0x044c, 0x043c] 0 =
          (if (0::int) = 0 then ustr ''film'' else ustr ''film-'' @ str_int 0)"
    by metis
  then have b: "spec_slugify plain_unicode [0x0424, 0x0438, 0x043b, 0x044c, 0x043c] 0 = ustr ''film''"
    by simp
  from h a b show ?thesis by blast
qed

section \<open>Slugs of a run\<close>

lemma hyphen_not_az09 [simp]: "\<not> in_az09 45"
  by (simp add: in_az09_def)

lemma hyphenated_weaken: "hyphenated False s \<Longrightarrow> hyphenated w s"
  by (cases s) auto

lemma hyphenated_re_sub:
  "hyphenated True (re_sub_dash s) \<and>
   (s = [] \<or> in_az09 (hd s) \<longrightarrow> hyphenated False (re_sub_dash s))"
proof (induction s rule: re_sub_dash.induct)
  case 1
  show ?case by simp
next
  case (2 c s)
  show ?case
  proof (cases "in_az09 c")
    case True
    with 2 show ?thesis by simp
  next
    case False
    let ?r = "dropWhile (\<lambda>x. \<not> in_az09 x) s"
    have "?r = [] \<or> in_az09 (hd ?r)"
      using hd_dropWhile [of "\<lambda>x. \<not> in_az09 x" s] by blast
    with 2(2) [OF False] have "hyphenated False (re_sub_dash ?r)" by blast
    with False show ?thesis by simp
  qed
qed

lemma hyphenated_drop_leading:
  "hyphenated w s \<Longrightarrow> hyphenated False (dropWhile (\<lambda>c. c = 45) s)"
proof (cases s)
  case Nil
  then show ?thesis by simp
next
  case (Cons c r)
  assume h: "hyphenated w s"
  show ?thesis
  proof (cases "c = 45")
    case False
    with h Cons show ?thesis by (auto split: if_splits)
  next
    case True
    with h Cons have r: "hyphenated False r" by (auto simp: in_az09_def)
    have "dropWhile (\<lambda>c. c = 45) r = r"
    proof (cases r)
      case Nil
      then show ?thesis by simp
    next
      case (Cons a l)
      with r have "in_az09 a" by (cases "in_az09 a") simp_all
      then have "a \<noteq> 45" using hyphen_not_az09 by blast
      with Cons show ?thesis by simp
    qed
    with r True Cons show ?thesis by simp
  qed
qed

lemma hyphenated_prefix: "hyphenated w (a @ b) \<Longrightarrow> hyphenated w a"
  by (induction a arbitrary: w) (auto split: if_splits)

lemma slug_match_hyphenated:
  "hyphenated w s \<Longrightarrow> s \<noteq> [] \<Longrightarrow> last s \<noteq> 45 \<Longrightarrow> slug_match w s"
proof (induction s arbitrary: w)
  case Nil
  then show ?case by simp
next
  case (Cons c s)
  show ?case
  proof (cases "s = []")
    case True
    with Cons.prems show ?thesis by (auto split: if_splits)
  next
    case False
    with Cons.prems have "last s \<noteq> 45" by simp
    with False Cons.IH Cons.prems(1) show ?thesis by (auto split: if_splits)
  qed
qed

lemma strip_re_sub_match:
  "py_strip_chars [45] (re_sub_dash s) = [] \<or>
   slug_match False (py_strip_chars [45] (re_sub_dash s))"
proof -
  let ?P = "\<lambda>c::nat. c = 45"
  let ?x = "dropWhile ?P (re_sub_dash s)"
  let ?y = "rev (dropWhile ?P (rev ?x))"
  have y: "py_strip_chars [45] (re_sub_dash s) = ?y"
    by (simp add: py_strip_chars_def py_strip_where_def)
  have x: "hyphenated False ?x"
    using hyphenated_re_sub [of s] hyphenated_drop_leading by blast
  have "rev ?x = takeWhile ?P (rev ?x) @ dropWhile ?P (rev ?x)" by simp
  then have "rev (rev ?x) = rev (takeWhile ?P (rev ?x) @ dropWhile ?P (rev ?x))"
    by (rule arg_cong)
  then have "?x = ?y @ rev (takeWhile ?P (rev ?x))" by (simp only: rev_rev_ident rev_append)
  with x have hy: "hyphenated False ?y" using hyphenated_prefix by metis
  show ?thesis
  proof (cases "?y = []")
    case True
    with y show ?thesis by simp
  next
    case False
    then have d: "dropWhile ?P (rev ?x) \<noteq> []" by simp
    have "last ?y = hd (dropWhile ?P (rev ?x))" using d by (simp add: last_rev)
    with hd_dropWhile [OF d] have "last ?y \<noteq> 45" by simp
    with hy False have "slug_match False ?y" by (rule slug_match_hyphenated)
    with y show ?thesis by simp
  qed
qed

lemma slug_match_append:
  "slug_match w a \<Longrightarrow> slug_match False b \<Longrightarrow> slug_match w (a @ 45 # b)"
  by (induction a arbitrary: w) (auto simp: in_az09_def split: if_splits)

lemma digit_az09: "is_digit c \<Longrightarrow> in_az09 c"
  by (simp add: in_az09_def is_digit_def)

lemma slug_match_digits: "list_all is_digit d \<Longrightarrow> d \<noteq> [] \<Longrightarrow> slug_match w d"
proof (induction d arbitrary: w)
  case Nil
  then show ?case by simp
next
  case (Cons c d)
  then have c: "in_az09 c" by (simp add: digit_az09)
  show ?case
  proof (cases "d = []")
    case True
    with c show ?thesis by simp
  next
    case False
    with Cons c show ?thesis by simp
  qed
qed

lemma slug_match_film: "slug_match False (ustr ''film'')"
  by (simp add: in_az09_def)

lemma str_int_digits: "0 \<le> n \<Longrightarrow> slug_match False (str_int n)"
  by (simp add: str_int_def slug_match_digits str_nat_digits str_nat_nonempty)

lemma slugify_pattern: "0 \<le> y \<Longrightarrow> slug_pattern (slugify ud t y)"
  using strip_re_sub_match [of "map ascii_lower (encode_ascii_ignore (normalize_nfkd ud t))"]
  by (auto simp: slugify_def slug_pattern_def Let_def slug_match_film slug_match_append
      str_int_digits simp del: ustr_Cons)

lemma nth_slug_pattern: "slug_pattern S \<Longrightarrow> slug_pattern (nth_slug S N)"
  by (simp add: nth_slug_def slug_pattern_def slug_match_append str_int_digits)

lemma occurrences_append:
  "occurrences ud S (ms @ [m]) =
     occurrences ud S ms + (if base_slug_of ud m = S then 1 else 0)"
  by (simp add: occurrences_def)

lemma slugs_numbered_append:
  assumes "slugs_numbered ud ms"
    and "slug m = nth_slug (base_slug_of ud m) (Suc (occurrences ud (base_slug_of ud m) ms))"
  shows "slugs_numbered ud (ms @ [m])"
  unfolding slugs_numbered_def
proof (intro allI impI)
  fix i assume "i < length (ms @ [m])"
  then consider "i < length ms" | "i = length ms" by fastforce
  then show "slug ((ms @ [m]) ! i) =
          nth_slug (base_slug_of ud ((ms @ [m]) ! i))
            (Suc (occurrences ud (base_slug_of ud ((ms @ [m]) ! i)) (take i (ms @ [m]))))"
  proof cases
    case 1
    with assms(1) show ?thesis by (simp add: slugs_numbered_def nth_append)
  next
    case 2
    with assms(2) show ?thesis by simp
  qed
qed

lemma counts_ok_initial: "counts_ok ud initial_state"
  by (simp add: counts_ok_def initial_state_def occurrences_def)

lemma slugs_numbered_initial: "slugs_numbered ud (movies initial_state)"
  by (simp add: slugs_numbered_def initial_state_def)

lemma process_entry_step:
  assumes p: "process_entry ud st entry = Inr st'" and c: "counts_ok ud st"
  shows "counts_ok ud st' \<and>
         (st' = st \<or>
          (\<exists>m. movies st' = movies st @ [m] \<and>
               slug m = nth_slug (base_slug_of ud m)
                          (Suc (occurrences ud (base_slug_of ud m) (movies st)))))"
proof -
  from p obtain e where e: "entry = JObj e"
    by (cases entry) (simp_all add: process_entry_def)
  from p e obtain ttl where t: "resolve_title e = Inr ttl"
    by (cases "resolve_title e") (simp_all add: process_entry_def)
  show ?thesis
  proof (cases "ttl = []")
    case True
    with p e t have "st' = st" by (simp add: process_entry_def)
    with c show ?thesis by simp
  next
    case False
    let ?ry = "parse_int (decimal ud) (dict_get e (ustr ''yearProduced''))"
    let ?base = "slugify ud ttl ?ry"
    let ?k = "occurrences ud ?base (movies st)"
    from p e t False obtain ds where d: "parse_directors (dict_get e (ustr ''director'')) = Inr ds"
      by (cases "parse_directors (dict_get e (ustr ''director''))")
        (simp_all add: process_entry_def Let_def)
    from c have look: "slug_counts st ?base = (if ?k = 0 then None else Some (int ?k))"
      by (simp add: counts_ok_def)
    then have occ: "(case slug_counts st ?base of None \<Rightarrow> 0 | Some n \<Rightarrow> n) = int ?k"
      by simp
    define m where "m = \<lparr>slug = (if int ?k = 0 then ?base else ?base @ 45 # str_int (int ?k + 1)),
        title = ttl, releaseYear = ?ry,
        registryYear = parse_int (decimal ud) (dict_get e (ustr ''yearAdded'')),
        directors = ds, cast = [], runtimeMinutes = 0, genres = [], logline = [],
        summary = [], whyImportant = [], watchUrl = [], image_url = []\<rparr>"
    from t False d occ
    have "process_entry ud st (JObj e) =
            Inr \<lparr>movies = movies st @ [m], slug_counts = (slug_counts st)(?base \<mapsto> int ?k + 1)\<rparr>"
      by (simp add: process_entry_def Let_def m_def)
    with p e
    have st': "st' = \<lparr>movies = movies st @ [m], slug_counts = (slug_counts st)(?base \<mapsto> int ?k + 1)\<rparr>"
      by simp
    have b: "base_slug_of ud m = ?base"
      by (simp add: base_slug_of_def m_def)
    have s: "slug m = nth_slug (base_slug_of ud m)
                          (Suc (occurrences ud (base_slug_of ud m) (movies st)))"
      unfolding b by (simp add: m_def nth_slug_def add.commute)
    have "counts_ok ud st'"
      unfolding counts_ok_def
    proof
      fix S
      show "slug_counts st' S =
        (if occurrences ud S (movies st') = 0 then None
         else Some (int (occurrences ud S (movies st'))))"
      proof (cases "S = ?base")
        case True
        then show ?thesis unfolding st' by (simp add: occurrences_append b)
      next
        case False
        with c show ?thesis unfolding st' by (simp add: occurrences_append b counts_ok_def)
      qed
    qed
    with s st' show ?thesis by simp
  qed
qed

lemma run_loop_inv:
  "run_loop ud st src = Inr st' \<Longrightarrow> counts_ok ud st \<Longrightarrow> slugs_numbered ud (movies st) \<Longrightarrow>
   counts_ok ud st' \<and> slugs_numbered ud (movies st')"
proof (induction src arbitrary: st)
  case Nil
  then show ?case by simp
next
  case (Cons entry rest)
  from Cons.prems(1) obtain st1 where 1: "process_entry ud st entry = Inr st1"
    and 2: "run_loop ud st1 rest = Inr st'"
    by (cases "process_entry ud st entry") simp_all
  from process_entry_step [OF 1 Cons.prems(2)] Cons.prems(3)
  have "counts_ok ud st1 \<and> slugs_numbered ud (movies st1)"
    by (auto intro: slugs_numbered_append)
  with Cons.IH [OF 2] show ?case by blast
qed

lemma convert_state:
  "convert ud src = Inr out \<Longrightarrow> \<exists>st. run_loop ud initial_state src = Inr st \<and> movies st = out"
  by (cases "run_loop ud initial_state src") (simp_all add: convert_def)

lemma convert_slugs_numbered: "convert ud src = Inr out \<Longrightarrow> slugs_numbered ud out"
  using convert_state [of ud src out] run_loop_inv [of ud initial_state src]
    counts_ok_initial [of ud] slugs_numbered_initial [of ud]
  by blast

lemma echo_example:
  "map_sum id (map slug)
     (convert ud
        [JObj [(ustr ''name'', JStr (ustr ''Echo'')), (ustr ''yearProduced'', JInt 2019)],
         JObj [(ustr ''name'', JStr (ustr ''Echo'')), (ustr ''yearProduced'', JInt 2019)]]) =
   Inr [ustr ''echo-2019'', ustr ''echo-2019-2'']"
  by (simp add: py_eval)

lemma echo_run:
  "run_loop plain_unicode initial_state [echo_2019, echo_2019] =
     Inr \<lparr>movies = [bare_movie (ustr ''echo-2019'') (ustr ''Echo'') 2019,
                     bare_movie (ustr ''echo-2019-2'') (ustr ''Echo'') 2019],
          slug_counts = [ustr ''echo-2019'' \<mapsto> 2]\<rparr>"
  by (simp add: py_eval echo_2019_def bare_movie_def)

lemma base_slugs_append: "base_slugs ud (xs @ ys) = base_slugs ud xs @ base_slugs ud ys"
  by (induction xs) (simp_all split: option.splits)

lemma occurrences_count:
  "occurrences ud S ms = count_list (map (base_slug_of ud) ms) S"
  by (induction ms) (simp_all add: occurrences_def)

lemma process_entry_kept:
  assumes p: "process_entry ud st (JObj e) = Inr st'"
    and t: "resolve_title e = Inr ttl" and n: "ttl \<noteq> []" and c: "counts_ok ud st"
  shows "\<exists>m. movies st' = movies st @ [m] \<and> title m = ttl \<and>
           releaseYear m = parse_int (decimal ud) (dict_get e (ustr ''yearProduced'')) \<and>
           registryYear m = parse_int (decimal ud) (dict_get e (ustr ''yearAdded'')) \<and>
           parse_directors (dict_get e (ustr ''director'')) = Inr (directors m) \<and>
           base_slug_of ud m =
             slugify ud ttl (parse_int (decimal ud) (dict_get e (ustr ''yearProduced''))) \<and>
           slug m = nth_slug (base_slug_of ud m)
                      (Suc (occurrences ud (base_slug_of ud m) (movies st)))"
proof -
  from process_entry_step [OF p c] obtain m0 where
    "st' = st \<or> (movies st' = movies st @ [m0] \<and>
       slug m0 = nth_slug (base_slug_of ud m0)
                  (Suc (occurrences ud (base_slug_of ud m0) (movies st))))"
    by blast
  moreover from p t n have ne: "movies st' \<noteq> movies st"
    by (auto simp: process_entry_def Let_def split: sum.splits)
  ultimately have m0: "movies st' = movies st @ [m0]"
    and s: "slug m0 = nth_slug (base_slug_of ud m0)
                  (Suc (occurrences ud (base_slug_of ud m0) (movies st)))"
    by auto
  from p t n m0 have f: "title m0 = ttl \<and>
      releaseYear m0 = parse_int (decimal ud) (dict_get e (ustr ''yearProduced'')) \<and>
      registryYear m0 = parse_int (decimal ud) (dict_get e (ustr ''yearAdded'')) \<and>
      parse_directors (dict_get e (ustr ''director'')) = Inr (directors m0)"
    by (auto simp: process_entry_def Let_def split: sum.splits)
  then have "base_slug_of ud m0 =
      slugify ud ttl (parse_int (decimal ud) (dict_get e (ustr ''yearProduced'')))"
    by (simp add: base_slug_of_def)
  with m0 s f show ?thesis by blast
qed

lemma process_entry_bases:
  assumes p: "process_entry ud st entry = Inr st'" and c: "counts_ok ud st"
  shows "\<exists>ms. movies st' = movies st @ ms \<and>
           map (base_slug_of ud) ms = base_slugs ud [entry]"
proof -
  from p obtain e where e: "entry = JObj e"
    by (cases entry) (simp_all add: process_entry_def)
  from p e obtain ttl where t: "resolve_title e = Inr ttl"
    by (cases "resolve_title e") (simp_all add: process_entry_def)
  show ?thesis
  proof (cases "ttl = []")
    case True
    with p e t have "st' = st" by (simp add: process_entry_def)
    with e t True show ?thesis by (simp add: entry_base_slug_def)
  next
    case False
    from process_entry_kept [OF p [unfolded e] t False c] obtain m where
      "movies st' = movies st @ [m]"
      "base_slug_of ud m =
         slugify ud ttl (parse_int (decimal ud) (dict_get e (ustr ''yearProduced'')))"
      by blast
    with e t False show ?thesis by (simp add: entry_base_slug_def)
  qed
qed

lemma run_loop_bases:
  "run_loop ud st src = Inr st' \<Longrightarrow> counts_ok ud st \<Longrightarrow>
   \<exists>ms. movies st' = movies st @ ms \<and> map (base_slug_of ud) ms = base_slugs ud src"
proof (induction src arbitrary: st)
  case Nil
  then show ?case by simp
next
  case (Cons entry rest)
  from Cons.prems(1) obtain st1 where 1: "process_entry ud st entry = Inr st1"
    and 2: "run_loop ud st1 rest = Inr st'"
    by (cases "process_entry ud st entry") simp_all
  from process_entry_step [OF 1 Cons.prems(2)] have c1: "counts_ok ud st1" by blast
  from process_entry_bases [OF 1 Cons.prems(2)] obtain ms1 where
    a: "movies st1 = movies st @ ms1" and b: "map (base_slug_of ud) ms1 = base_slugs ud [entry]"
    by blast
  from Cons.IH [OF 2 c1] obtain ms2 where
    a2: "movies st' = movies st1 @ ms2" and b2: "map (base_slug_of ud) ms2 = base_slugs ud rest"
    by blast
  have "base_slugs ud (entry # rest) = base_slugs ud [entry] @ base_slugs ud rest"
    using base_slugs_append [of ud "[entry]" rest] by simp
  with a b a2 b2 have "movies st' = movies st @ (ms1 @ ms2) \<and>
      map (base_slug_of ud) (ms1 @ ms2) = base_slugs ud (entry # rest)"
    by simp
  then show ?case by blast
qed

lemma run_loop_counts_ok:
  "run_loop ud st src = Inr st' \<Longrightarrow> counts_ok ud st \<Longrightarrow> counts_ok ud st'"
proof (induction src arbitrary: st)
  case Nil
  then show ?case by simp
next
  case (Cons entry rest)
  from Cons.prems(1) obtain st1 where 1: "process_entry ud st entry = Inr st1"
    and 2: "run_loop ud st1 rest = Inr st'"
    by (cases "process_entry ud st entry") simp_all
  from process_entry_step [OF 1 Cons.prems(2)] have "counts_ok ud st1" by blast
  with Cons.IH [OF 2] show ?case by blast
qed

lemma convert_bases:
  assumes "convert ud src = Inr out"
  shows "map (base_slug_of ud) out = base_slugs ud src"
proof -
  from convert_state [OF assms] obtain st where
    r: "run_loop ud initial_state src = Inr st" and m: "movies st = out" by blast
  from run_loop_bases [OF r counts_ok_initial] m show ?thesis
    by (auto simp: initial_state_def)
qed

lemma convert_input_order:
  assumes c: "convert ud (xs @ JObj e # ys) = Inr out"
    and t: "resolve_title e = Inr ttl" and n: "ttl \<noteq> []"
  shows "length (base_slugs ud xs) < length out \<and>
         title (out ! length (base_slugs ud xs)) = ttl \<and>
         releaseYear (out ! length (base_slugs ud xs)) =
           parse_int (decimal ud) (dict_get e (ustr ''yearProduced'')) \<and>
         registryYear (out ! length (base_slugs ud xs)) =
           parse_int (decimal ud) (dict_get e (ustr ''yearAdded'')) \<and>
         parse_directors (dict_get e (ustr ''director'')) =
           Inr (directors (out ! length (base_slugs ud xs))) \<and>
         slug (out ! length (base_slugs ud xs)) =
           nth_slug (slugify ud ttl (parse_int (decimal ud) (dict_get e (ustr ''yearProduced''))))
             (Suc (count_list (base_slugs ud xs)
                (slugify ud ttl (parse_int (decimal ud) (dict_get e (ustr ''yearProduced''))))))"
proof -
  let ?S = "slugify ud ttl (parse_int (decimal ud) (dict_get e (ustr ''yearProduced'')))"
  from convert_state [OF c] obtain st where
    r: "run_loop ud initial_state (xs @ JObj e # ys) = Inr st" and o: "movies st = out"
    by blast
  from r obtain st1 where r1: "run_loop ud initial_state xs = Inr st1"
    and r2: "run_loop ud st1 (JObj e # ys) = Inr st"
    by (cases "run_loop ud initial_state xs") (simp_all add: run_loop_append)
  from r2 obtain st2 where p: "process_entry ud st1 (JObj e) = Inr st2"
    and r3: "run_loop ud st2 ys = Inr st"
    by (cases "process_entry ud st1 (JObj e)") simp_all
  have c1: "counts_ok ud st1" using run_loop_counts_ok [OF r1 counts_ok_initial] .
  have c2: "counts_ok ud st2" using process_entry_step [OF p c1] by blast
  from run_loop_bases [OF r1 counts_ok_initial] have
    b1: "map (base_slug_of ud) (movies st1) = base_slugs ud xs"
    by (auto simp: initial_state_def)
  then have l1: "length (movies st1) = length (base_slugs ud xs)"
    by (metis length_map)
  from process_entry_kept [OF p t n c1] obtain m where
    m: "movies st2 = movies st1 @ [m]" and f: "title m = ttl"
      "releaseYear m = parse_int (decimal ud) (dict_get e (ustr ''yearProduced''))"
      "registryYear m = parse_int (decimal ud) (dict_get e (ustr ''yearAdded''))"
      "parse_directors (dict_get e (ustr ''director'')) = Inr (directors m)"
    and b: "base_slug_of ud m = ?S"
    and s: "slug m = nth_slug (base_slug_of ud m)
                      (Suc (occurrences ud (base_slug_of ud m) (movies st1)))"
    by blast
  from run_loop_bases [OF r3 c2] obtain ms3 where "movies st = movies st2 @ ms3" by blast
  with m o have out: "out = movies st1 @ m # ms3" by simp
  then have k: "length (base_slugs ud xs) < length out" and at: "out ! length (base_slugs ud xs) = m"
    using l1 by (simp_all add: nth_append)
  from s b have "slug m = nth_slug ?S (Suc (count_list (base_slugs ud xs) ?S))"
    by (simp add: occurrences_count b1)
  with k at f show ?thesis by simp
qed

lemma run_loop_counters:
  assumes "run_loop ud initial_state src = Inr st"
  shows "slug_counts st S =
           (if count_list (base_slugs ud src) S = 0 then None
            else Some (int (count_list (base_slugs ud src) S)))"
proof -
  from run_loop_bases [OF assms counts_ok_initial]
  have "map (base_slug_of ud) (movies st) = base_slugs ud src"
    by (auto simp: initial_state_def)
  then have "occurrences ud S (movies st) = count_list (base_slugs ud src) S"
    by (simp add: occurrences_count)
  with run_loop_counts_ok [OF assms counts_ok_initial] show ?thesis
    by (simp add: counts_ok_def)
qed

lemma echo_directors_example:
  "map_sum id (map slug) (convert ud [echo_by ''A'', echo_by ''B'']) =
     Inr [ustr ''echo-2019'', ustr ''echo-2019-2''] \<and>
   map_sum id (map directors) (convert ud [echo_by ''A'', echo_by ''B'']) =
     Inr [[ustr ''A''], [ustr ''B'']]"
  by (simp add: py_eval echo_by_def echo_fields_def TRANS_TABLE_def CYRILLIC_MAP_def)

text \<open>
  C5. In every run that ends, an element of the source with a title produces the output
  record at the position given by the number of records the elements before it produce,
  with its own title, years and directors, and with the slug of its rank in input order:
  with \<open>S\<close> its base slug and \<open>N - 1\<close> earlier elements of the source with base slug
  \<open>S\<close>, the slug is \<open>S\<close> for \<open>N = 1\<close> and \<open>S-N\<close> for \<open>N \<ge> 2\<close>. The base slugs of the
  output are those of the source in the same order. The counter of \<open>S\<close> after the loop
  is the number of records with base slug \<open>S\<close>, the first included, and absent when
  there is none. Two records titled Echo of 2019 get \<open>echo-2019\<close> and \<open>echo-2019-2\<close>;
  with directors A and B, the record of A gets the first slug and the record of B the
  second.
\<close>

theorem slug_disambiguation:
  "(convert ud (xs @ JObj e # ys) = Inr out \<and> resolve_title e = Inr ttl \<and> ttl \<noteq> [] \<longrightarrow>
      length (base_slugs ud xs) < length out \<and>
      title (out ! length (base_slugs ud xs)) = ttl \<and>
      releaseYear (out ! length (base_slugs ud xs)) =
        parse_int (decimal ud) (dict_get e (ustr ''yearProduced'')) \<and>
      registryYear (out ! length (base_slugs ud xs)) =
        parse_int (decimal ud) (dict_get e (ustr ''yearAdded'')) \<and>
      parse_directors (dict_get e (ustr ''director'')) =
        Inr (directors (out ! length (base_slugs ud xs))) \<and>
      slug (out ! length (base_slugs ud xs)) =
        nth_slug (slugify ud ttl (parse_int (decimal ud) (dict_get e (ustr ''yearProduced''))))
          (Suc (count_list (base_slugs ud xs)
             (slugify ud ttl (parse_int (decimal ud) (dict_get e (ustr ''yearProduced''))))))) \<and>
   (convert ud src = Inr out' \<longrightarrow> map (base_slug_of ud) out' = base_slugs ud src) \<and>
   (convert ud src = Inr out' \<and> i < length out' \<longrightarrow>
      slug (out' ! i) =
        nth_slug (base_slug_of ud (out' ! i))
          (Suc (occurrences ud (base_slug_of ud (out' ! i)) (take i out')))) \<and>
   (run_loop ud initial_state src = Inr st \<longrightarrow>
      slug_counts st S =
        (if occurrences ud S (movies st) = 0 then None
         else Some (int (occurrences ud S (movies st)))) \<and>
      slug_counts st S =
        (if count_list (base_slugs ud src) S = 0 then None
         else Some (int (count_list (base_slugs ud src) S)))) \<and>
   nth_slug S 1 = S \<and> nth_slug S 2 = S @ ustr ''-2'' \<and>
   map_sum id (map slug)
     (convert ud
        [JObj [(ustr ''name'', JStr (ustr ''Echo'')), (ustr ''yearProduced'', JInt 2019)],
         JObj [(ustr ''name'', JStr (ustr ''Echo'')), (ustr ''yearProduced'', JInt 2019)]]) =
   Inr [ustr ''echo-2019'', ustr ''echo-2019-2''] \<and>
   map_sum id (map slug) (convert ud [echo_by ''A'', echo_by ''B'']) =
     Inr [ustr ''echo-2019'', ustr ''echo-2019-2''] \<and>
   map_sum id (map directors) (convert ud [echo_by ''A'', echo_by ''B'']) =
     Inr [[ustr ''A''], [ustr ''B'']]"
proof -
  have a: "convert ud src = Inr out' \<and> i < length out' \<longrightarrow>
      slug (out' ! i) =
        nth_slug (base_slug_of ud (out' ! i))
          (Suc (occurrences ud (base_slug_of ud (out' ! i)) (take i out')))"
    using convert_slugs_numbered [of ud src out'] by (simp add: slugs_numbered_def)
  have b: "run_loop ud initial_state src = Inr st \<longrightarrow>
      slug_counts st S =
        (if occurrences ud S (movies st) = 0 then None
         else Some (int (occurrences ud S (movies st))))"
    using run_loop_inv [of ud initial_state src st] counts_ok_initial [of ud]
      slugs_numbered_initial [of ud]
    by (simp add: counts_ok_def)
  have c: "nth_slug S 1 = S \<and> nth_slug S 2 = S @ ustr ''-2''"
    by (simp add: nth_slug_def str_int_def)
  from a b c echo_example [of ud] echo_directors_example [of ud]
    convert_input_order [of ud xs e ys out ttl] convert_bases [of ud src out']
    run_loop_counters [of ud src st S]
  show ?thesis by blast
qed

theorem slug_disambiguation_witness:
  "convert plain_unicode ([echo_by ''A''] @ JObj (echo_fields ''B'') # []) =
     Inr [(bare_movie (ustr ''echo-2019'') (ustr ''Echo'') 2019)\<lparr>directors := [ustr ''A'']\<rparr>,
          (bare_movie (ustr ''echo-2019-2'') (ustr ''Echo'') 2019)\<lparr>directors := [ustr ''B'']\<rparr>] \<and>
   resolve_title (echo_fields ''B'') = Inr (ustr ''Echo'') \<and>
   base_slugs plain_unicode [echo_by ''A''] = [ustr ''echo-2019''] \<and>
   slug ([(bare_movie (ustr ''echo-2019'') (ustr ''Echo'') 2019)\<lparr>directors := [ustr ''A'']\<rparr>,
          (bare_movie (ustr ''echo-2019-2'') (ustr ''Echo'') 2019)\<lparr>directors := [ustr ''B'']\<rparr>] ! 1) =
     nth_slug (ustr ''echo-2019'') 2 \<and>
   parse_directors (dict_get (echo_fields ''B'') (ustr ''director'')) = Inr [ustr ''B'']"
proof -
  let ?a = "(bare_movie (ustr ''echo-2019'') (ustr ''Echo'') 2019)\<lparr>directors := [ustr ''A'']\<rparr>"
  let ?b = "(bare_movie (ustr ''echo-2019-2'') (ustr ''Echo'') 2019)\<lparr>directors := [ustr ''B'']\<rparr>"
  let ?S = "slugify plain_unicode (ustr ''Echo'')
              (parse_int (decimal plain_unicode) (dict_get (echo_fields ''B'') (ustr ''yearProduced'')))"
  have c: "convert plain_unicode ([echo_by ''A''] @ JObj (echo_fields ''B'') # []) = Inr [?a, ?b]"
    by (simp add: py_eval echo_by_def echo_fields_def bare_movie_def TRANS_TABLE_def
        CYRILLIC_MAP_def)
  have t: "resolve_title (echo_fields ''B'') = Inr (ustr ''Echo'')"
    by (simp add: py_eval echo_fields_def)
  have n: "ustr ''Echo'' \<noteq> []" by simp
  have bs: "base_slugs plain_unicode [echo_by ''A''] = [ustr ''echo-2019'']"
    by (simp add: entry_base_slug_def py_eval echo_by_def echo_fields_def)
  have S: "?S = ustr ''echo-2019''"
    by (simp add: py_eval echo_fields_def)
  from slug_disambiguation [of plain_unicode "[echo_by ''A'']" "echo_fields ''B''" "[]"
      "[?a, ?b]" "ustr ''Echo''"] c t n
  have r: "slug ([?a, ?b] ! length (base_slugs plain_unicode [echo_by ''A''])) =
             nth_slug ?S (Suc (count_list (base_slugs plain_unicode [echo_by ''A'']) ?S)) \<and>
           parse_directors (dict_get (echo_fields ''B'') (ustr ''director'')) =
             Inr (directors ([?a, ?b] ! length (base_slugs plain_unicode [echo_by ''A''])))"
    by blast
  from r have 1: "slug ([?a, ?b] ! 1) = nth_slug (ustr ''echo-2019'') 2"
    unfolding bs S by (simp add: numeral_2_eq_2)
  from r have 2: "parse_directors (dict_get (echo_fields ''B'') (ustr ''director'')) = Inr [ustr ''B'']"
    unfolding bs by (simp add: bare_movie_def)
  from c t bs 1 2 show ?thesis by blast
qed

text \<open>
  C7, amended. In every run that ends, the slug of each output record with a
  non-negative release year matches the slug pattern.
\<close>

theorem slug_pattern_nonneg_year:
  "convert ud src = Inr out \<longrightarrow>
     (\<forall>m \<in> set out. 0 \<le> releaseYear m \<longrightarrow> slug_pattern (slug m))"
proof (intro impI ballI)
  fix m
  assume c: "convert ud src = Inr out" and m: "m \<in> set out" and y: "0 \<le> releaseYear m"
  from m obtain i where i: "i < length out" "out ! i = m"
    by (auto simp: in_set_conv_nth)
  from convert_slugs_numbered [OF c] i
  have "slug m = nth_slug (base_slug_of ud m) (Suc (occurrences ud (base_slug_of ud m) (take i out)))"
    by (auto simp: slugs_numbered_def)
  moreover from y have "slug_pattern (base_slug_of ud m)"
    by (simp add: base_slug_of_def slugify_pattern)
  ultimately show "slug_pattern (slug m)" by (simp add: nth_slug_pattern)
qed

theorem slug_pattern_nonneg_year_witness:
  "convert plain_unicode [echo_2019] = Inr [bare_movie (ustr ''echo-2019'') (ustr ''Echo'') 2019] \<and>
   0 \<le> releaseYear (bare_movie (ustr ''echo-2019'') (ustr ''Echo'') 2019) \<and>
   slug_pattern (ustr ''echo-2019'')"
proof -
  let ?a = "bare_movie (ustr ''echo-2019'') (ustr ''Echo'') 2019"
  have c: "convert plain_unicode [echo_2019] = Inr [?a]"
    by (simp add: py_eval echo_2019_def bare_movie_def)
  have y: "0 \<le> releaseYear ?a" by (simp add: bare_movie_def)
  from slug_pattern_nonneg_year [of plain_unicode "[echo_2019]" "[?a]"] c
  have "\<forall>m \<in> set [?a]. 0 \<le> releaseYear m \<longrightarrow> slug_pattern (slug m)" by blast
  with y have "slug_pattern (slug ?a)" by simp
  then have "slug_pattern (ustr ''echo-2019'')" by (simp add: bare_movie_def)
  with c y show ?thesis by blast
qed

text \<open>
  C7 as stated fails: with \<open>yearProduced\<close> the string \<open>-5\<close> the slug is \<open>echo--5\<close>,
  two hyphens in a row, which the pattern does not match.
\<close>

theorem negative_year_slug_counterexample:
  "map_sum id (map slug)
     (convert plain_unicode
        [JObj [(ustr ''name'', JStr (ustr ''Echo'')),
               (ustr ''yearProduced'', JStr (ustr ''-5''))]]) = Inr [ustr ''echo--5''] \<and>
   \<not> slug_pattern (ustr ''echo--5'')"
  by (simp add: py_eval slug_pattern_def)

text \<open>
  C1 against the code: the titles Echo, Echo and Echo 2, none with a year, get the
  slugs \<open>echo\<close>, \<open>echo-2\<close> and \<open>echo-2\<close>. The second record's suffixed slug is the
  third record's base slug, which the counter of \<open>echo-2\<close> sees for the first time.
\<close>

theorem slug_collision:
  "map_sum id (map slug)
     (convert plain_unicode
        [JObj [(ustr ''name'', JStr (ustr ''Echo''))],
         JObj [(ustr ''name'', JStr (ustr ''Echo''))],
         JObj [(ustr ''name'', JStr (ustr ''Echo 2''))]]) =
     Inr [ustr ''echo'', ustr ''echo-2'', ustr ''echo-2''] \<and>
   \<not> distinct [ustr ''echo'', ustr ''echo-2'', ustr ''echo-2'']"
  by (simp add: py_eval)

end
